theory Spec2Isabelle
  imports Complex_Main "HOL-Library.Sublist" "HOL-Library.AList"
    "HOL-Library.Char_ord" "HOL-Library.List_Lexorder"
begin

section \<open>Python strings\<close>

text \<open>
  A Python \<open>str\<close> is modelled as a \<open>string\<close> whose characters are code points
  below 128. On that range \<open>str.isspace\<close> holds for tab, line feed, vertical tab, form
  feed, carriage return, the four separators 0x1C to 0x1F and the space; \<open>str.lower\<close>
  and \<open>str.upper\<close> move the 26 letters and leave every other character alone. Case
  mapping and white space of code points from 128 on are not modelled, so the theorems
  about strings speak about ASCII input (\<open>ascii_str\<close>).
\<close>

definition ascii_str :: "string \<Rightarrow> bool" where
  "ascii_str s = list_all (\<lambda>c. of_char c < (128::nat)) s"

definition py_isspace :: "char \<Rightarrow> bool" where
  "py_isspace c = (let n = (of_char c :: nat) in (9 \<le> n \<and> n \<le> 13) \<or> (28 \<le> n \<and> n \<le> 32))"

definition py_lower_char :: "char \<Rightarrow> char" where
  "py_lower_char c = (let n = (of_char c :: nat) in if 65 \<le> n \<and> n \<le> 90 then char_of (n + 32) else c)"

definition py_upper_char :: "char \<Rightarrow> char" where
  "py_upper_char c = (let n = (of_char c :: nat) in if 97 \<le> n \<and> n \<le> 122 then char_of (n - 32) else c)"

definition py_lower :: "string \<Rightarrow> string" where
  "py_lower s = map py_lower_char s"

definition py_upper :: "string \<Rightarrow> string" where
  "py_upper s = map py_upper_char s"

text \<open>\<open>s.strip()\<close>: white space is dropped at both ends.\<close>

definition py_strip :: "string \<Rightarrow> string" where
  "py_strip s = rev (dropWhile py_isspace (rev (dropWhile py_isspace s)))"

text \<open>\<open>str(n)\<close> for an integer: the decimal digits, with a minus sign below zero.\<close>

fun digits_of :: "nat \<Rightarrow> string" where
  "digits_of n = (if n < 10 then [char_of (48 + n)] else digits_of (n div 10) @ [char_of (48 + n mod 10)])"

definition py_str_int :: "int \<Rightarrow> string" where
  "py_str_int i = (if i < 0 then CHR ''-'' # digits_of (nat (- i)) else digits_of (nat i))"

section \<open>The scenario mapping of the fingerprint generator\<close>

text \<open>\<open>map_scenario\<close> of \<open>generate_sql_speedup_hash_cache.py\<close>. The dictionary
  \<open>mapping\<close> is a literal with distinct keys, kept as an association list.\<close>

definition scenario_mapping :: "(string \<times> string) list" where
  "scenario_mapping =
    [(''baseline'', ''NONE''),
     (''ce_cm'', ''CE+CM''),
     (''ce'', ''CE''),
     (''cm'', ''CM''),
     (''jn'', ''JN''),
     (''ce_jn'', ''CE+JN''),
     (''cm_jn'', ''CM+JN''),
     (''all_three'', ''ALL''),
     (''all'', ''ALL''),
     (''ce+cm'', ''CE+CM''),
     (''ce+jn'', ''CE+JN''),
     (''cm+jn'', ''CM+JN''),
     (''ce+cm+jn'', ''ALL'')]"

definition map_scenario :: "string \<Rightarrow> string" where
  "map_scenario best_combo =
    (if best_combo = [] then ''NONE''
     else
       let key = py_lower (py_strip best_combo) in
       (case map_of scenario_mapping key of
          Some label \<Rightarrow> label
        | None \<Rightarrow> py_upper (py_strip best_combo)))"

definition canonical_labels :: "string list" where
  "canonical_labels = [''NONE'', ''CE'', ''CM'', ''JN'', ''CE+CM'', ''CE+JN'', ''CM+JN'', ''ALL'']"

section \<open>Plan documents\<close>

text \<open>
  What \<open>json.loads\<close> returns: \<open>None\<close>, a bool, an int, a float, a str, a list or a dict
  with string keys. A dict is an association list in insertion order, read with
  \<open>map_of\<close>; \<open>json.loads\<close> never yields a dict with a repeated key. Floats are modelled
  by the real number they stand for (rounding, infinities and NaN are not modelled), and
  the recursion limit of the interpreter is not modelled.
\<close>

datatype json =
    JNull
  | JBool bool
  | JInt int
  | JFloat real
  | JStr string
  | JList "json list"
  | JDict "(string \<times> json) list"

text \<open>The exceptions of the modelled code that are not database errors.\<close>

datatype py_error = AttributeError | TypeError | KeyError | ZeroDivisionError | ValueError

text \<open>\<open>d.get(k)\<close>: the value, or \<open>None\<close>.\<close>

definition py_get :: "(string \<times> json) list \<Rightarrow> string \<Rightarrow> json" where
  "py_get d k = (case map_of d k of Some v \<Rightarrow> v | None \<Rightarrow> JNull)"

text \<open>
  \<open>isinstance(v, (int, float))\<close> together with \<open>int(v)\<close>: a bool is an int in Python
  (\<open>True\<close> is 1), and \<open>int\<close> of a float truncates towards zero. \<open>None\<close> stands for a
  value that is not an instance.
\<close>

fun num_as_int :: "json \<Rightarrow> int option" where
  "num_as_int (JBool b) = Some (if b then 1 else 0)"
| "num_as_int (JInt i) = Some i"
| "num_as_int (JFloat x) = Some (if 0 \<le> x then \<lfloor>x\<rfloor> else \<lceil>x\<rceil>)"
| "num_as_int _ = None"

text \<open>\<open>isinstance(v, (int, float))\<close> together with the value as a float.\<close>

fun num_as_real :: "json \<Rightarrow> real option" where
  "num_as_real (JBool b) = Some (if b then 1 else 0)"
| "num_as_real (JInt i) = Some (real_of_int i)"
| "num_as_real (JFloat x) = Some x"
| "num_as_real _ = None"

definition buffer_keys :: "string list" where
  "buffer_keys =
    [''Shared Hit Blocks'',
     ''Shared Read Blocks'',
     ''Shared Dirtied Blocks'',
     ''Shared Written Blocks'',
     ''Local Hit Blocks'',
     ''Local Read Blocks'',
     ''Local Dirtied Blocks'',
     ''Local Written Blocks'',
     ''Temp Read Blocks'',
     ''Temp Written Blocks'']"

text \<open>\<open>agg.get(k, 0)\<close> on the aggregate, a dict from counter names to ints.\<close>

definition agg_get :: "(string \<times> int) list \<Rightarrow> string \<Rightarrow> int" where
  "agg_get agg k = (case map_of agg k of Some v \<Rightarrow> v | None \<Rightarrow> 0)"

text \<open>The body of \<open>for k in keys\<close> in \<open>collect_buffers\<close>.\<close>

definition add_counter :: "(string \<times> json) list \<Rightarrow> (string \<times> int) list \<Rightarrow> string \<Rightarrow> (string \<times> int) list" where
  "add_counter p agg k =
    (case map_of p k of
       Some v \<Rightarrow>
         (case num_as_int v of
            Some i \<Rightarrow> AList.update k (agg_get agg k + i) agg
          | None \<Rightarrow> agg)
     | None \<Rightarrow> agg)"

definition add_counters :: "(string \<times> json) list \<Rightarrow> (string \<times> int) list \<Rightarrow> (string \<times> int) list" where
  "add_counters p agg = foldl (add_counter p) agg buffer_keys"

text \<open>
  \<open>for child in p.get("Plans", []) or []\<close>: the elements the loop visits. A falsy value
  gives no element; a number that is not zero (and \<open>True\<close>) is not iterable, a
  \<open>TypeError\<close>. A string yields its characters and a dict its keys: strings, which the
  loop body skips (\<open>isinstance(child, dict)\<close>), so no element is listed for them.
\<close>

fun iter_or_empty :: "json \<Rightarrow> py_error + json list" where
  "iter_or_empty JNull = Inr []"
| "iter_or_empty (JBool b) = (if b then Inl TypeError else Inr [])"
| "iter_or_empty (JInt i) = (if i = 0 then Inr [] else Inl TypeError)"
| "iter_or_empty (JFloat x) = (if x = 0 then Inr [] else Inl TypeError)"
| "iter_or_empty (JStr s) = Inr []"
| "iter_or_empty (JList xs) = Inr xs"
| "iter_or_empty (JDict kvs) = Inr []"

definition plans_of :: "(string \<times> json) list \<Rightarrow> py_error + json list" where
  "plans_of p = (case map_of p ''Plans'' of None \<Rightarrow> Inr [] | Some v \<Rightarrow> iter_or_empty v)"

lemma size_map_of:
  "map_of p k = Some v \<Longrightarrow> size v < size (JDict p)"
  by (induction p) (auto split: if_splits)

lemma size_plans_of:
  assumes "plans_of p = Inr cs"
  shows "size_list size cs < size (JDict p)"
proof (cases "map_of p ''Plans''")
  case None
  with assms show ?thesis by (simp add: plans_of_def)
next
  case (Some v)
  with assms have "iter_or_empty v = Inr cs" by (simp add: plans_of_def)
  then have "size_list size cs \<le> size v"
    by (cases v) (auto split: if_splits)
  with size_map_of [OF Some] show ?thesis by simp
qed

text \<open>
  \<open>collect_buffers(p, agg)\<close> of \<open>summarize_plan\<close>: the counters of the node, then the
  children under \<open>Plans\<close> that are dicts, in order. The aggregate is passed and returned.
\<close>

function collect_buffers :: "(string \<times> json) list \<Rightarrow> (string \<times> int) list \<Rightarrow> py_error + (string \<times> int) list"
  and collect_children :: "json list \<Rightarrow> (string \<times> int) list \<Rightarrow> py_error + (string \<times> int) list"
where
  "collect_buffers p agg =
    (case plans_of p of
       Inl e \<Rightarrow> Inl e
     | Inr cs \<Rightarrow> collect_children cs (add_counters p agg))"
| "collect_children [] agg = Inr agg"
| "collect_children (c # cs) agg =
    (case c of
       JDict q \<Rightarrow>
         (case collect_buffers q agg of
            Inl e \<Rightarrow> Inl e
          | Inr agg' \<Rightarrow> collect_children cs agg')
     | _ \<Rightarrow> collect_children cs agg)"
  by pat_completeness auto
termination
  by (relation "measure (\<lambda>x. case x of Inl (p, agg) \<Rightarrow> size (JDict p) | Inr (cs, agg) \<Rightarrow> size_list size cs)")
     (auto dest: size_plans_of)

section \<open>The plan tree extractor\<close>

text \<open>
  The dict \<open>out\<close> that \<open>extract_plan_tree\<close> builds: its scalar entries (\<open>attrs\<close>, each the
  \<open>node.get\<close> of one key), its \<open>buffers\<close> entry (\<open>None\<close> when no counter is reported), its
  \<open>children\<close> list and, only when the node has a \<open>Workers\<close> list, its \<open>workers\<close> list. A
  worker is the dict \<open>dict(w)\<close> made of its entry (its keys need not be strings, see
  \<open>py_dict\<close>) and, when that dict holds a dict under \<open>Plan\<close>, the tree stored under
  \<open>PlanTree\<close>.
\<close>

datatype plan_node =
  PlanNode (attrs: "(string \<times> json) list") (node_buffers: "(string \<times> json) list option")
    (children: "plan_node list") (workers: "worker list option")
and worker =
  Worker (worker_record: "(json \<times> json) list") (plan_tree: "plan_node option")

definition node_attrs :: "(string \<times> json) list \<Rightarrow> (string \<times> json) list" where
  "node_attrs node =
    [(''node_type'', py_get node ''Node Type''),
     (''parent_relationship'', py_get node ''Parent Relationship''),
     (''strategy'', py_get node ''Strategy''),
     (''join_type'', py_get node ''Join Type''),
     (''parallel_aware'', py_get node ''Parallel Aware''),
     (''async_capable'', py_get node ''Async Capable''),
     (''relation'', py_get node ''Relation Name''),
     (''schema'', py_get node ''Schema''),
     (''alias'', py_get node ''Alias''),
     (''index_name'', py_get node ''Index Name''),
     (''startup_cost'', py_get node ''Startup Cost''),
     (''total_cost'', py_get node ''Total Cost''),
     (''plan_rows'', py_get node ''Plan Rows''),
     (''plan_width'', py_get node ''Plan Width''),
     (''actual_startup_time_ms'', py_get node ''Actual Startup Time''),
     (''actual_total_time_ms'', py_get node ''Actual Total Time''),
     (''actual_rows'', py_get node ''Actual Rows''),
     (''actual_loops'', py_get node ''Actual Loops''),
     (''output'', py_get node ''Output''),
     (''filter'', py_get node ''Filter''),
     (''index_cond'', py_get node ''Index Cond''),
     (''recheck_cond'', py_get node ''Recheck Cond''),
     (''hash_cond'', py_get node ''Hash Cond''),
     (''join_filter'', py_get node ''Join Filter''),
     (''merge_cond'', py_get node ''Merge Cond''),
     (''sort_key'', py_get node ''Sort Key''),
     (''group_key'', py_get node ''Group Key''),
     (''hash_key'', py_get node ''Hash Key''),
     (''exact_heap_tuples'', py_get node ''Exact Heap Tuples''),
     (''workers_planned'', py_get node ''Workers Planned''),
     (''workers_launched'', py_get node ''Workers Launched'')]"

text \<open>The dict comprehension \<open>{k: node.get(k) for k in [...] if node.get(k) is not None} or None\<close>.\<close>

definition buffers_of :: "(string \<times> json) list \<Rightarrow> (string \<times> json) list option" where
  "buffers_of node =
    (let b = map (\<lambda>k. (k, py_get node k)) (filter (\<lambda>k. py_get node k \<noteq> JNull) buffer_keys)
     in if b = [] then None else Some b)"

subsection \<open>The constructor \<open>dict\<close> on a decoded value\<close>

text \<open>
  \<open>dict(w)\<close> copies a dict. Of any other value it reads a sequence of pairs: every element
  must itself be a sequence of exactly two items (a list of two values, a string of two
  characters, or a dict of two keys, which yields its keys), else \<open>ValueError\<close>; an
  element that is not iterable is a \<open>TypeError\<close>, and so is a key that is a list or a
  dict (not hashable). A later pair replaces the value of an equal key and keeps the
  key. Keys are compared as Python does: numbers and bools by value, everything else by
  identity of the value. A string is the sequence of its characters, each of length 1,
  so only the empty string is accepted; \<open>None\<close> and numbers are not iterable.
\<close>

definition hashable :: "json \<Rightarrow> bool" where
  "hashable v = (case v of JList xs \<Rightarrow> False | JDict kvs \<Rightarrow> False | _ \<Rightarrow> True)"

definition key_eq :: "json \<Rightarrow> json \<Rightarrow> bool" where
  "key_eq a b =
    (case num_as_real a of
       Some x \<Rightarrow> (case num_as_real b of Some y \<Rightarrow> x = y | None \<Rightarrow> False)
     | None \<Rightarrow> (case num_as_real b of Some y \<Rightarrow> False | None \<Rightarrow> a = b))"

fun dict_set :: "(json \<times> json) list \<Rightarrow> json \<Rightarrow> json \<Rightarrow> (json \<times> json) list" where
  "dict_set [] k v = [(k, v)]"
| "dict_set ((k', v') # d) k v =
    (if key_eq k' k then (k', v) # d else (k', v') # dict_set d k v)"

fun dict_get :: "(json \<times> json) list \<Rightarrow> json \<Rightarrow> json option" where
  "dict_get [] k = None"
| "dict_get ((k', v') # d) k = (if key_eq k' k then Some v' else dict_get d k)"

definition dict_del :: "(json \<times> json) list \<Rightarrow> json \<Rightarrow> (json \<times> json) list" where
  "dict_del d k = filter (\<lambda>kv. \<not> key_eq (fst kv) k) d"

fun pair_of :: "json \<Rightarrow> py_error + json \<times> json" where
  "pair_of (JList [k, v]) = (if hashable k then Inr (k, v) else Inl TypeError)"
| "pair_of (JList xs) = Inl ValueError"
| "pair_of (JStr [a, b]) = Inr (JStr [a], JStr [b])"
| "pair_of (JStr s) = Inl ValueError"
| "pair_of (JDict [(a, x), (b, y)]) = Inr (JStr a, JStr b)"
| "pair_of (JDict kvs) = Inl ValueError"
| "pair_of v = Inl TypeError"

fun dict_of_pairs :: "json list \<Rightarrow> (json \<times> json) list \<Rightarrow> py_error + (json \<times> json) list" where
  "dict_of_pairs [] d = Inr d"
| "dict_of_pairs (x # xs) d =
    (case pair_of x of
       Inl e \<Rightarrow> Inl e
     | Inr (k, v) \<Rightarrow> dict_of_pairs xs (dict_set d k v))"

fun py_dict :: "json \<Rightarrow> py_error + (json \<times> json) list" where
  "py_dict (JDict kvs) = Inr (map (\<lambda>kv. (JStr (fst kv), snd kv)) kvs)"
| "py_dict (JList xs) = dict_of_pairs xs []"
| "py_dict (JStr s) = (if s = [] then Inr [] else Inl ValueError)"
| "py_dict v = Inl TypeError"

lemma size_pair_of: "pair_of x = Inr (k, v) \<Longrightarrow> size v \<le> size x"
  by (induction x rule: pair_of.induct) (auto split: if_splits)

lemma dict_set_values_subset: "snd ` set (dict_set d k v) \<subseteq> insert v (snd ` set d)"
proof (induction d)
  case Nil
  show ?case by simp
next
  case (Cons p d)
  obtain a b where p: "p = (a, b)" by (cases p)
  show ?case
  proof (cases "key_eq a k")
    case True
    then show ?thesis by (auto simp: p)
  next
    case False
    with Cons show ?thesis by (auto simp: p)
  qed
qed

lemma dict_set_values: "(a, b) \<in> set (dict_set d k v) \<Longrightarrow> b = v \<or> b \<in> snd ` set d"
  using dict_set_values_subset [of d k v] by force

lemma dict_of_pairs_values:
  "dict_of_pairs xs d = Inr r \<Longrightarrow> (a, b) \<in> set r \<Longrightarrow>
     b \<in> snd ` set d \<or> (\<exists>x\<in>set xs. size b \<le> size x)"
proof (induction xs arbitrary: d)
  case Nil
  then show ?case by force
next
  case (Cons x xs)
  from Cons.prems(1) obtain k v where p: "pair_of x = Inr (k, v)"
    and r: "dict_of_pairs xs (dict_set d k v) = Inr r"
    by (auto split: sum.splits)
  from Cons.IH [OF r Cons.prems(2)]
  have "b \<in> snd ` set (dict_set d k v) \<or> (\<exists>x\<in>set xs. size b \<le> size x)" .
  then show ?case
  proof
    assume "b \<in> snd ` set (dict_set d k v)"
    then obtain a' where "(a', b) \<in> set (dict_set d k v)" by auto
    from dict_set_values [OF this] size_pair_of [OF p] show ?thesis by auto
  qed auto
qed

lemma dict_get_value: "dict_get d k = Some v \<Longrightarrow> v \<in> snd ` set d"
  by (induction d) (auto split: if_splits)

lemma size_list_member: "x \<in> set xs \<Longrightarrow> size x \<le> size_list size xs"
  by (induction xs) auto

lemma size_py_dict_get:
  assumes "py_dict w = Inr r" and "dict_get r k = Some v"
  shows "size v < size w"
proof -
  from dict_get_value [OF assms(2)] obtain a where m: "(a, v) \<in> set r" by auto
  show ?thesis
  proof (cases w)
    case (JDict kvs)
    with assms(1) m obtain s where sv: "(s, v) \<in> set kvs" by auto
    have "size v \<le> size_list (size_prod (\<lambda>x. 0) size) kvs"
      using sv by (induction kvs) auto
    with JDict show ?thesis by simp
  next
    case (JList xs)
    with assms(1) have "dict_of_pairs xs [] = Inr r" by simp
    from dict_of_pairs_values [OF this m] obtain x where "x \<in> set xs" "size v \<le> size x" by auto
    with size_list_member [of x xs] JList show ?thesis by simp
  next
    case (JStr s)
    with assms(1) m show ?thesis by (auto split: if_splits)
  qed (use assms(1) in simp_all)
qed

text \<open>
  \<open>extract_plan_tree(node)\<close>, with its two loops. When \<open>PlanTree\<close> is stored in the copy of
  a worker, an entry the copy had under that key is replaced: the copy is kept without
  it, beside the tree.
\<close>

function extract_plan_tree :: "(string \<times> json) list \<Rightarrow> py_error + plan_node"
  and extract_children :: "json list \<Rightarrow> py_error + plan_node list"
  and extract_workers :: "json list \<Rightarrow> py_error + worker list"
where
  "extract_plan_tree node =
    (case plans_of node of
       Inl e \<Rightarrow> Inl e
     | Inr cs \<Rightarrow>
         (case extract_children cs of
            Inl e \<Rightarrow> Inl e
          | Inr kids \<Rightarrow>
              (case map_of node ''Workers'' of
                 Some (JList ws) \<Rightarrow>
                   (case extract_workers ws of
                      Inl e \<Rightarrow> Inl e
                    | Inr wl \<Rightarrow> Inr (PlanNode (node_attrs node) (buffers_of node) kids (Some wl)))
               | _ \<Rightarrow> Inr (PlanNode (node_attrs node) (buffers_of node) kids None))))"
| "extract_children [] = Inr []"
| "extract_children (c # cs) =
    (case c of
       JDict q \<Rightarrow>
         (case extract_plan_tree q of
            Inl e \<Rightarrow> Inl e
          | Inr t \<Rightarrow>
              (case extract_children cs of
                 Inl e \<Rightarrow> Inl e
               | Inr ts \<Rightarrow> Inr (t # ts)))
     | _ \<Rightarrow> extract_children cs)"
| "extract_workers [] = Inr []"
| "extract_workers (w # ws) =
    (case py_dict w of
       Inl e \<Rightarrow> Inl e
     | Inr w_copy \<Rightarrow>
         (case dict_get w_copy (JStr ''Plan'') of
            Some (JDict q) \<Rightarrow>
              (case extract_plan_tree q of
                 Inl e \<Rightarrow> Inl e
               | Inr t \<Rightarrow>
                   (case extract_workers ws of
                      Inl e \<Rightarrow> Inl e
                    | Inr wl \<Rightarrow> Inr (Worker (dict_del w_copy (JStr ''PlanTree'')) (Some t) # wl)))
          | _ \<Rightarrow>
              (case extract_workers ws of
                 Inl e \<Rightarrow> Inl e
               | Inr wl \<Rightarrow> Inr (Worker w_copy None # wl))))"
  by pat_completeness auto
termination
  by (relation "measure (\<lambda>x. case x of
        Inl node \<Rightarrow> size (JDict node)
      | Inr (Inl cs) \<Rightarrow> size_list size cs
      | Inr (Inr ws) \<Rightarrow> size_list size ws)")
     (auto dest: size_plans_of size_map_of size_py_dict_get)

section \<open>The plan summarizer\<close>

record plan_summary =
  planning_time_ms :: json
  execution_time_ms :: json
  root :: "(string \<times> json) list"
  buffers :: "(string \<times> int) list option"
  jit :: "(string \<times> json) list option"
  complete_plan_tree :: plan_node

definition root_digest :: "(string \<times> json) list \<Rightarrow> (string \<times> json) list" where
  "root_digest plan =
    [(''node_type'', py_get plan ''Node Type''),
     (''relation'', py_get plan ''Relation Name''),
     (''schema'', py_get plan ''Schema''),
     (''alias'', py_get plan ''Alias''),
     (''index_name'', py_get plan ''Index Name''),
     (''plan_rows'', py_get plan ''Plan Rows''),
     (''plan_width'', py_get plan ''Plan Width''),
     (''total_cost'', py_get plan ''Total Cost''),
     (''actual_rows'', py_get plan ''Actual Rows''),
     (''actual_total_time_ms'', py_get plan ''Actual Total Time''),
     (''actual_loops'', py_get plan ''Actual Loops''),
     (''workers_planned'', py_get plan ''Workers Planned''),
     (''workers_launched'', py_get plan ''Workers Launched'')]"

definition jit_summary :: "(string \<times> json) list \<Rightarrow> (string \<times> json) list option" where
  "jit_summary top_doc =
    (case map_of top_doc ''JIT'' of
       Some (JDict j) \<Rightarrow>
         Some ([(''Functions'', py_get j ''Functions''), (''Options'', py_get j ''Options'')]
               @ (case map_of j ''Timing'' of None \<Rightarrow> [] | Some t \<Rightarrow> [(''Timing'', t)]))
     | _ \<Rightarrow> None)"

text \<open>
  \<open>summarize_plan(plan_json)\<close>. \<open>Inl e\<close> is the dict \<open>{"error": ...}\<close> that the handler of
  \<open>except Exception\<close> returns: \<open>top.get\<close> and \<open>plan.get\<close> raise \<open>AttributeError\<close> on a value
  that is not a dict, and the two traversals may raise. \<open>buffers or None\<close> is \<open>None\<close> for
  the empty aggregate.
\<close>

definition summarize_plan :: "json \<Rightarrow> py_error + plan_summary" where
  "summarize_plan plan_json =
    (let top_doc = (case plan_json of JList (x # xs) \<Rightarrow> x | _ \<Rightarrow> plan_json) in
     case top_doc of
       JDict t \<Rightarrow>
         (case (case map_of t ''Plan'' of Some v \<Rightarrow> v | None \<Rightarrow> JDict []) of
            JDict plan \<Rightarrow>
              (case collect_buffers plan [] of
                 Inl e \<Rightarrow> Inl e
               | Inr agg \<Rightarrow>
                   (case extract_plan_tree plan of
                      Inl e \<Rightarrow> Inl e
                    | Inr tree \<Rightarrow>
                        Inr \<lparr>planning_time_ms = py_get t ''Planning Time'',
                             execution_time_ms = py_get t ''Execution Time'',
                             root = root_digest plan,
                             buffers = (if agg = [] then None else Some agg),
                             jit = jit_summary t,
                             complete_plan_tree = tree\<rparr>))
          | _ \<Rightarrow> Inl AttributeError)
     | _ \<Rightarrow> Inl AttributeError)"

subsection \<open>Sums of a counter over a decoded tree\<close>

text \<open>The integer value of counter \<open>k\<close> on one decoded node (see \<open>num_as_int\<close>); 0 when the
  node does not report it as an int, a float or a bool.\<close>

definition node_counter :: "string \<Rightarrow> plan_node \<Rightarrow> int" where
  "node_counter k n =
    (case node_buffers n of
       None \<Rightarrow> 0
     | Some b \<Rightarrow> (case map_of b k of None \<Rightarrow> 0 | Some v \<Rightarrow> (case num_as_int v of None \<Rightarrow> 0 | Some i \<Rightarrow> i)))"

text \<open>The sum over every node of the tree, as the specification words it: the node, its
  children, and the plan trees nested in its workers.\<close>

fun tree_sum :: "string \<Rightarrow> plan_node \<Rightarrow> int"
  and worker_sum :: "string \<Rightarrow> worker \<Rightarrow> int"
where
  "tree_sum k (PlanNode a b cs ws) =
     node_counter k (PlanNode a b cs ws) + sum_list (map (tree_sum k) cs)
     + (case ws of None \<Rightarrow> 0 | Some wl \<Rightarrow> sum_list (map (worker_sum k) wl))"
| "worker_sum k (Worker r pt) = (case pt of None \<Rightarrow> 0 | Some t \<Rightarrow> tree_sum k t)"

text \<open>The sum over the nodes reached through \<open>children\<close> only.\<close>

fun children_sum :: "string \<Rightarrow> plan_node \<Rightarrow> int" where
  "children_sum k (PlanNode a b cs ws) =
     node_counter k (PlanNode a b cs ws) + sum_list (map (children_sum k) cs)"

text \<open>The aggregated value of counter \<open>k\<close> in a summary; a counter that the summary does
  not list reads as 0.\<close>

definition summary_buffer :: "plan_summary \<Rightarrow> string \<Rightarrow> int" where
  "summary_buffer s k = (case buffers s of None \<Rightarrow> 0 | Some agg \<Rightarrow> agg_get agg k)"

text \<open>Two documents for the examples: a join over one scan, with counters on both nodes;
  and a gather node with one child and one worker that carries a plan of its own.\<close>

definition two_level_doc :: json where
  "two_level_doc =
    JList [JDict
      [(''Plan'', JDict
         [(''Node Type'', JStr ''Hash Join''),
          (''Shared Hit Blocks'', JInt 3),
          (''Shared Read Blocks'', JInt 1),
          (''Plans'', JList
             [JDict [(''Node Type'', JStr ''Seq Scan''),
                     (''Shared Hit Blocks'', JInt 4),
                     (''Shared Read Blocks'', JInt 2)]])]),
       (''Planning Time'', JFloat (1 / 4)),
       (''Execution Time'', JFloat (25 / 2))]]"

definition worker_plan_doc :: json where
  "worker_plan_doc =
    JList [JDict
      [(''Plan'', JDict
         [(''Node Type'', JStr ''Gather''),
          (''Shared Hit Blocks'', JInt 3),
          (''Plans'', JList
             [JDict [(''Node Type'', JStr ''Seq Scan''), (''Shared Hit Blocks'', JInt 4)]]),
          (''Workers'', JList
             [JDict [(''Worker Number'', JInt 0),
                     (''Plan'', JDict [(''Node Type'', JStr ''Seq Scan''),
                                       (''Shared Hit Blocks'', JInt 5)])]])]),
       (''Execution Time'', JFloat (25 / 2))]]"

text \<open>The \<open>Execution Time\<close> that a plan document reports: the entry of its top-level
  object (the first element when the document is a non-empty list), \<open>None\<close> when there is
  none.\<close>

definition document_execution_time :: "json \<Rightarrow> json" where
  "document_execution_time doc =
    (case (case doc of JList (x # xs) \<Rightarrow> x | _ \<Rightarrow> doc) of
       JDict t \<Rightarrow> py_get t ''Execution Time''
     | _ \<Rightarrow> JNull)"

text \<open>A document whose \<open>Plans\<close> entry is a number, which the traversal cannot iterate,
  and one whose \<open>Execution Time\<close> is a boolean.\<close>

definition undecodable_doc :: json where
  "undecodable_doc =
    JList [JDict
      [(''Plan'', JDict [(''Node Type'', JStr ''Result''), (''Plans'', JInt 1)]),
       (''Execution Time'', JFloat (25 / 2))]]"

definition bool_time_doc :: json where
  "bool_time_doc =
    JList [JDict
      [(''Plan'', JDict [(''Node Type'', JStr ''Result'')]),
       (''Execution Time'', JBool True)]]"

text \<open>The integer value of counter \<open>k\<close> on one node of the document; 0 when the node
  does not report it as an int, a float or a bool.\<close>

definition doc_counter :: "(string \<times> json) list \<Rightarrow> string \<Rightarrow> int" where
  "doc_counter p k =
    (case map_of p k of
       None \<Rightarrow> 0
     | Some v \<Rightarrow> (case num_as_int v of None \<Rightarrow> 0 | Some i \<Rightarrow> i))"

section \<open>Paths and patterns\<close>

text \<open>
  The functions of \<open>posixpath\<close> and \<open>glob\<close> that \<open>load_sql_files\<close> calls, on POSIX paths.
  \<open>os.path.join(a, b)\<close>: \<open>b\<close> alone when it is absolute, else \<open>a\<close> and \<open>b\<close> with one
  separator between them unless \<open>a\<close> is empty or ends with one. \<open>os.path.split(p)\<close>: the
  part up to the last separator, without its trailing separators unless it consists of
  separators only, and the part after it, which is \<open>os.path.basename(p)\<close>.
  \<open>glob.has_magic\<close>: one of the characters \<open>*\<close>, \<open>?\<close>, \<open>[\<close> occurs.
\<close>

definition path_join :: "string \<Rightarrow> string \<Rightarrow> string" where
  "path_join a b =
    (if prefix ''/'' b then b
     else if a = [] \<or> last a = CHR ''/'' then a @ b
     else a @ ''/'' @ b)"

definition py_basename :: "string \<Rightarrow> string" where
  "py_basename p = rev (takeWhile (\<lambda>c. c \<noteq> CHR ''/'') (rev p))"

definition path_split :: "string \<Rightarrow> string \<times> string" where
  "path_split p =
    (let tail = py_basename p;
         head = take (length p - length tail) p
     in (if head \<noteq> [] \<and> \<not> list_all (\<lambda>c. c = CHR ''/'') head
         then rev (dropWhile (\<lambda>c. c = CHR ''/'') (rev head))
         else head,
         tail))"

text \<open>What \<open>os.path.join(a, n)\<close> puts before a relative name \<open>n\<close>.\<close>

definition join_prefix :: "string \<Rightarrow> string" where
  "join_prefix a = (if a = [] \<or> last a = CHR ''/'' then a else a @ ''/'')"

definition has_magic :: "string \<Rightarrow> bool" where
  "has_magic p = list_ex (\<lambda>c. c = CHR ''*'' \<or> c = CHR ''?'' \<or> c = CHR ''['') p"

section \<open>The executor and its surroundings\<close>

text \<open>
  What the run reads from outside is a \<open>world\<close>, passed to every operation and returned
  updated: the successive readings of \<open>time.time()\<close> (\<open>clock\<close>, with the number \<open>ticks\<close> of
  readings taken so far), the text of \<open>datetime.now().isoformat()\<close>, whether
  \<open>psycopg2.connect\<close> and the session set-up succeed, what the server answers to the
  \<open>n\<close>-th call of a dispatch strategy (\<open>server\<close>, \<open>calls\<close>), the names in a directory
  (\<open>scandir\<close>, in the order of the file system, empty for a path that is no directory;
  the empty path is the current directory), what opening and reading a path gives
  (\<open>read_file\<close>), and what \<open>glob.glob\<close> returns for a pattern whose directory part itself
  holds a pattern character (\<open>glob_magic\<close>: paths of other directories, in any order).
  It also keeps what the run leaves outside: the statements the strategies handed to
  \<open>cursor.execute\<close> (\<open>executed\<close>) and the printed lines "Round r done" and the final
  round statistics.
\<close>

datatype status = Status_success | Status_error

text \<open>A result row, as its first column and the others (a row has a column).\<close>

type_synonym row = "json \<times> json list"

text \<open>What one use of the session gives: \<open>psycopg2.Error\<close> from \<open>connection.cursor()\<close>,
  from \<open>cursor.execute\<close> or from \<open>cursor.fetchall\<close> (each with its text), or the rows
  together with the column names of \<open>cursor.description\<close> (\<open>None\<close> when it is \<open>None\<close>).\<close>

datatype db_reply =
    CursorError string
  | ExecuteError string
  | FetchError string
  | Rows "row list" "string list option"

text \<open>\<open>psycopg2.connect\<close> raises; or it returns and the set-up of the session (the cursor
  and the \<open>SET statement_timeout\<close> statement) raises; or both succeed.\<close>

datatype connect_reply = ConnectRefused | SetupFailed | Accepted

datatype file_read = Unreadable | Content string

record round_totals =
  total_time :: real
  avg_time :: real
  min_time :: real
  max_time :: real
  std_dev :: real

record world =
  clock :: "nat \<Rightarrow> real"
  ticks :: nat
  iso_now :: "nat \<Rightarrow> string"
  connect_reply :: connect_reply
  server :: "nat \<Rightarrow> string \<Rightarrow> db_reply"
  calls :: nat
  executed :: "string list"
  scandir :: "string \<Rightarrow> string list"
  read_file :: "string \<Rightarrow> file_read"
  glob_magic :: "string \<Rightarrow> string list"
  round_reports :: "(int \<times> real \<times> nat \<times> nat) list"
  printed_totals :: "round_totals list"

text \<open>The \<open>i\<close>-th reading of \<open>time.time()\<close> from now on, and the world after \<open>n\<close> readings.\<close>

definition reading :: "world \<Rightarrow> nat \<Rightarrow> real" where
  "reading w i = clock w (ticks w + i)"

definition advance :: "nat \<Rightarrow> world \<Rightarrow> world" where
  "advance n w = w\<lparr>ticks := ticks w + n\<rparr>"

text \<open>The reply to the statement of the current call, and the world after the call: a
  statement reaches \<open>cursor.execute\<close> unless the cursor could not be made.\<close>

definition ask :: "world \<Rightarrow> string \<Rightarrow> db_reply" where
  "ask w stmt = server w (calls w) stmt"

definition asked :: "string \<Rightarrow> db_reply \<Rightarrow> world \<Rightarrow> world" where
  "asked stmt rep w =
    w\<lparr>calls := calls w + 1,
      executed := (case rep of CursorError e \<Rightarrow> executed w | _ \<Rightarrow> executed w @ [stmt])\<rparr>"

subsection \<open>Execution results\<close>

record timing =
  cursor_creation_time :: real
  query_execution_time :: real
  result_fetch_time :: real
  column_info_time :: real

text \<open>
  The dict a dispatch strategy returns. An optional field is \<open>None\<close> when the dict has no
  such key or holds \<open>None\<close> under it. The key \<open>results\<close> is the field \<open>result_rows\<close>. A
  plan summary is the dict of \<open>summarize_plan\<close>: its error form \<open>Inl\<close> or the summary.
\<close>

record exec_result =
  query_name :: string
  environment :: string
  execution_time :: real
  status :: status
  error :: "string option"
  timestamp :: string
  detailed_timing :: "timing option"
  row_count :: "json option"
  column_names :: "string list option"
  result_rows :: "row list option"
  plan_summary :: "(py_error + plan_summary) option"
  plan_json :: "json option"

text \<open>\<open>NotConnected\<close> is the dict \<open>{"error": "Not connected"}\<close>: it has no other key.\<close>

datatype reply = NotConnected | Result exec_result

datatype opt_value = OBool bool | OText string

text \<open>
  The attributes of \<open>EnhancedPostgreSQLExecutor\<close> that the run reads or writes;
  \<open>connection\<close> tells whether \<open>self.connection\<close> is set. Host, port, database, user and
  password only reach \<open>psycopg2.connect\<close>, whose outcome is the world's \<open>connect_reply\<close>.
\<close>

record executor =
  environment_name :: string
  store_full_plan_json :: bool
  explain_options :: "(string \<times> opt_value) list"
  statement_timeout_ms :: "int option"
  connection :: bool
  results :: "reply list"
  round_times :: "real list"
  connect_time :: real

definition default_explain_options :: "(string \<times> opt_value) list" where
  "default_explain_options =
    [(''ANALYZE'', OBool True),
     (''BUFFERS'', OBool True),
     (''VERBOSE'', OBool False),
     (''COSTS'', OBool True),
     (''TIMING'', OBool True),
     (''FORMAT'', OText ''JSON'')]"

text \<open>\<open>__init__\<close>: an empty or absent option dict gives the default options.\<close>

definition new_executor ::
  "string \<Rightarrow> bool \<Rightarrow> (string \<times> opt_value) list option \<Rightarrow> int option \<Rightarrow> executor" where
  "new_executor env_name full_plan opts timeout_ms =
    \<lparr>environment_name = env_name,
     store_full_plan_json = full_plan,
     explain_options = (case opts of None \<Rightarrow> default_explain_options
                        | Some [] \<Rightarrow> default_explain_options
                        | Some os \<Rightarrow> os),
     statement_timeout_ms = timeout_ms,
     connection = False,
     results = [],
     round_times = [],
     connect_time = 0\<rparr>"

text \<open>\<open>connect()\<close>: the flag, the measured duration, and the executor and world after it.\<close>

definition connect :: "executor \<Rightarrow> world \<Rightarrow> bool \<times> real \<times> executor \<times> world" where
  "connect self w =
    (case connect_reply w of
       ConnectRefused \<Rightarrow> (False, 0, self, advance 1 w)
     | SetupFailed \<Rightarrow> (False, 0, self\<lparr>connection := True\<rparr>, advance 1 w)
     | Accepted \<Rightarrow> (True, reading w 1 - reading w 0, self\<lparr>connection := True\<rparr>, advance 2 w))"

subsection \<open>The EXPLAIN statement\<close>

definition py_str_opt :: "opt_value \<Rightarrow> string" where
  "py_str_opt v = (case v of OBool b \<Rightarrow> (if b then ''True'' else ''False'') | OText t \<Rightarrow> t)"

definition explain_opt :: "string \<times> opt_value \<Rightarrow> string" where
  "explain_opt kv =
    (case kv of (k, v) \<Rightarrow>
       if py_upper k = ''FORMAT'' then ''FORMAT '' @ py_str_opt v
       else (case v of
               OBool b \<Rightarrow> (if b then py_upper k else py_upper k @ '' false'')
             | OText t \<Rightarrow> py_upper k @ '' '' @ t))"

fun py_join :: "string \<Rightarrow> string list \<Rightarrow> string" where
  "py_join sep [] = []"
| "py_join sep [x] = x"
| "py_join sep (x # y # ys) = x @ sep @ py_join sep (y # ys)"

definition build_explain_sql :: "executor \<Rightarrow> string \<Rightarrow> string" where
  "build_explain_sql self query =
    ''EXPLAIN ('' @ py_join '', '' (map explain_opt (explain_options self)) @ '') '' @ query"

subsection \<open>The three dispatch strategies\<close>

text \<open>The dict of the \<open>except psycopg2.Error\<close> handlers and of the error return of the
  plan mode (there without the key \<open>plan_summary\<close>).\<close>

definition error_result :: "executor \<Rightarrow> string \<Rightarrow> real \<Rightarrow> string \<Rightarrow> string \<Rightarrow> exec_result" where
  "error_result self qname elapsed msg stamp =
    \<lparr>query_name = qname,
     environment = environment_name self,
     execution_time = elapsed,
     status = Status_error,
     error = Some msg,
     timestamp = stamp,
     detailed_timing = None,
     row_count = None,
     column_names = None,
     result_rows = None,
     plan_summary = None,
     plan_json = None\<rparr>"

text \<open>\<open>execute_query_simple\<close>: \<open>t0\<close> is reading 0 and \<open>t1\<close> reading 1, on both paths.\<close>

definition execute_query_simple :: "executor \<Rightarrow> string \<Rightarrow> string \<Rightarrow> world \<Rightarrow> reply \<times> world" where
  "execute_query_simple self query qname w =
    (if \<not> connection self then (NotConnected, w)
     else
       let t0 = reading w 0; t1 = reading w 1; rep = ask w query;
           w' = asked query rep (advance 2 w); stamp = iso_now w (calls w)
       in (case rep of
             Rows rows desc \<Rightarrow>
               (Result \<lparr>query_name = qname,
                        environment = environment_name self,
                        execution_time = t1 - t0,
                        status = Status_success,
                        error = None,
                        timestamp = stamp,
                        detailed_timing = None,
                        row_count = Some (JInt (int (length rows))),
                        column_names = Some (case desc of Some names \<Rightarrow> names | None \<Rightarrow> []),
                        result_rows = Some rows,
                        plan_summary = None,
                        plan_json = None\<rparr>, w')
           | CursorError e \<Rightarrow> (Result (error_result self qname (t1 - t0) e stamp), w')
           | ExecuteError e \<Rightarrow> (Result (error_result self qname (t1 - t0) e stamp), w')
           | FetchError e \<Rightarrow> (Result (error_result self qname (t1 - t0) e stamp), w')))"

text \<open>
  \<open>execute_query_with_detailed_timing\<close>. The readings in order: \<open>t0\<close>, \<open>t_c0\<close>, \<open>t_c1\<close>,
  \<open>t_e0\<close>, \<open>t_e1\<close>, \<open>t_f0\<close>, \<open>t_f1\<close>, \<open>t_col0\<close>, \<open>t_col1\<close>; when a step raises, the next reading
  is \<open>t1\<close> of the handler.
\<close>

definition execute_query_with_detailed_timing ::
  "executor \<Rightarrow> string \<Rightarrow> string \<Rightarrow> world \<Rightarrow> reply \<times> world" where
  "execute_query_with_detailed_timing self query qname w =
    (if \<not> connection self then (NotConnected, w)
     else
       let t0 = reading w 0; rep = ask w query; stamp = iso_now w (calls w)
       in (case rep of
             CursorError e \<Rightarrow>
               (Result (error_result self qname (reading w 2 - t0) e stamp),
                asked query rep (advance 3 w))
           | ExecuteError e \<Rightarrow>
               (Result (error_result self qname (reading w 4 - t0) e stamp),
                asked query rep (advance 5 w))
           | FetchError e \<Rightarrow>
               (Result (error_result self qname (reading w 6 - t0) e stamp),
                asked query rep (advance 7 w))
           | Rows rows desc \<Rightarrow>
               let tm = \<lparr>cursor_creation_time = reading w 2 - reading w 1,
                         query_execution_time = reading w 4 - reading w 3,
                         result_fetch_time = reading w 6 - reading w 5,
                         column_info_time = reading w 8 - reading w 7\<rparr>;
                   total_time = cursor_creation_time tm + query_execution_time tm
                                + result_fetch_time tm + column_info_time tm
               in (Result \<lparr>query_name = qname,
                           environment = environment_name self,
                           execution_time = total_time,
                           status = Status_success,
                           error = None,
                           timestamp = stamp,
                           detailed_timing = Some tm,
                           row_count = Some (JInt (int (length rows))),
                           column_names = Some (case desc of Some names \<Rightarrow> names | None \<Rightarrow> []),
                           result_rows = Some rows,
                           plan_summary = None,
                           plan_json = None\<rparr>,
                   asked query rep (advance 9 w))))"

text \<open>
  \<open>get_explain_analyze_json\<close>: \<open>Inl\<close> is the dict with the key \<open>error\<close>; \<open>Inr\<close> holds the plan
  summary and, when full plans are stored, the document. The document is the first
  column of the first row; \<open>json.loads(json.dumps(...))\<close> returns it as it is.
\<close>

definition get_explain_analyze_json ::
  "executor \<Rightarrow> string \<Rightarrow> world \<Rightarrow> (string + (py_error + plan_summary) \<times> json option) \<times> world" where
  "get_explain_analyze_json self query w =
    (if \<not> connection self then (Inl ''Not connected'', w)
     else
       let explain_sql = build_explain_sql self query; rep = ask w explain_sql;
           w' = asked explain_sql rep w
       in (case rep of
             CursorError e \<Rightarrow> (Inl (''EXPLAIN failed: '' @ e), w')
           | ExecuteError e \<Rightarrow> (Inl (''EXPLAIN failed: '' @ e), w')
           | FetchError e \<Rightarrow> (Inl (''EXPLAIN failed: '' @ e), w')
           | Rows rows desc \<Rightarrow>
               (case rows of
                  [] \<Rightarrow> (Inl ''No EXPLAIN output'', w')
                | (plan_obj, others) # later \<Rightarrow>
                    (Inr (summarize_plan plan_obj,
                          if store_full_plan_json self then Some plan_obj else None), w'))))"

text \<open>\<open>plan_summary.get("execution_time_ms")\<close> and \<open>plan_summary.get("root", {}).get("actual_rows")\<close>:
  the error form of a summary has neither key.\<close>

definition summary_execution_ms :: "py_error + plan_summary \<Rightarrow> json" where
  "summary_execution_ms ps = (case ps of Inl e \<Rightarrow> JNull | Inr s \<Rightarrow> execution_time_ms s)"

definition summary_actual_rows :: "py_error + plan_summary \<Rightarrow> json" where
  "summary_actual_rows ps = (case ps of Inl e \<Rightarrow> JNull | Inr s \<Rightarrow> py_get (root s) ''actual_rows'')"

text \<open>\<open>execute_query_with_explain\<close>: \<open>t0\<close> is read before and \<open>t1\<close> after the call of
  \<open>get_explain_analyze_json\<close>.\<close>

definition execute_query_with_explain ::
  "executor \<Rightarrow> string \<Rightarrow> string \<Rightarrow> world \<Rightarrow> reply \<times> world" where
  "execute_query_with_explain self query qname w =
    (if \<not> connection self then (NotConnected, w)
     else
       let t0 = reading w 0; t1 = reading w 1; client_elapsed = t1 - t0;
           stamp = iso_now w (calls w)
       in (case get_explain_analyze_json self query (advance 2 w) of
             (Inl msg, w') \<Rightarrow>
               (Result (error_result self qname client_elapsed msg stamp), w')
           | (Inr (summary, doc), w') \<Rightarrow>
               let execution_ms = summary_execution_ms summary;
                   primary_exec_seconds =
                     (case num_as_real execution_ms of
                        Some ms \<Rightarrow> ms / 1000
                      | None \<Rightarrow> client_elapsed)
               in (Result \<lparr>query_name = qname,
                           environment = environment_name self,
                           execution_time = primary_exec_seconds,
                           status = Status_success,
                           error = None,
                           timestamp = stamp,
                           detailed_timing = None,
                           row_count = Some (summary_actual_rows summary),
                           column_names = None,
                           result_rows = None,
                           plan_summary = Some summary,
                           plan_json = doc\<rparr>, w')))"

text \<open>The choice of the strategy in the loop of \<open>execute_all_queries\<close>; \<open>detailed\<close> is the
  flag \<open>detailed_timing\<close>.\<close>

definition dispatch :: "bool \<Rightarrow> bool \<Rightarrow> executor \<Rightarrow> string \<Rightarrow> string \<Rightarrow> world \<Rightarrow> reply \<times> world" where
  "dispatch run_explain detailed self query qname w =
    (if run_explain then execute_query_with_explain self query qname w
     else if detailed then execute_query_with_detailed_timing self query qname w
     else execute_query_simple self query qname w)"

subsection \<open>Example surroundings\<close>

text \<open>A world whose \<open>n\<close>-th clock reading is \<open>n * n\<close>, a connected executor with the default
  options, and three servers: one that returns a plan document, one that returns a row,
  one that rejects every statement.\<close>

definition demo_world :: "(nat \<Rightarrow> string \<Rightarrow> db_reply) \<Rightarrow> (string \<times> file_read) list \<Rightarrow> world" where
  "demo_world srv files =
    \<lparr>clock = (\<lambda>n. real (n * n)),
     ticks = 0,
     iso_now = (\<lambda>n. ''2025-01-01T00:00:00''),
     connect_reply = Accepted,
     server = srv,
     calls = 0,
     executed = [],
     scandir = (\<lambda>d. map fst files),
     read_file = (\<lambda>p. case map_of files (py_basename p) of Some r \<Rightarrow> r | None \<Rightarrow> Unreadable),
     glob_magic = (\<lambda>p. []),
     round_reports = [],
     printed_totals = []\<rparr>"

definition demo_executor :: executor where
  "demo_executor = (new_executor ''kvm'' False None None)\<lparr>connection := True\<rparr>"


definition doc_server :: "json \<Rightarrow> nat \<Rightarrow> string \<Rightarrow> db_reply" where
  "doc_server doc n stmt = Rows [(doc, [])] (Some [''QUERY PLAN''])"

definition rows_server :: "nat \<Rightarrow> string \<Rightarrow> db_reply" where
  "rows_server n stmt = Rows [(JInt 1, [])] (Some [''x''])"


section \<open>The query source directory\<close>

record sql_file =
  filename :: string
  content :: string

text \<open>
  The names that \<open>fnmatch\<close> accepts for the pattern \<open>*.sql\<close> among those \<open>glob\<close> keeps:
  they end in \<open>.sql\<close> and do not start with a dot (hidden files are left out).
\<close>

definition matches_sql :: "string \<Rightarrow> bool" where
  "matches_sql name = (suffix ''.sql'' name \<and> \<not> prefix ''.'' name)"


definition glob_sql :: "world \<Rightarrow> string \<Rightarrow> string list" where
  "glob_sql w directory =
    (let pattern = path_join directory ''*.sql''; dirname = fst (path_split pattern)
     in if has_magic dirname then glob_magic w pattern
        else map (path_join dirname) (filter matches_sql (scandir w dirname)))"

text \<open>The body of the loop of \<open>load_sql_files\<close> for one path: a file that cannot be
  opened or read is skipped by the handler, and so is one whose stripped text is empty.\<close>

definition load_one :: "world \<Rightarrow> string \<Rightarrow> sql_file option" where
  "load_one w file_path =
    (case read_file w file_path of
       Content text \<Rightarrow>
         (let c = py_strip text in
          if c \<noteq> [] then Some \<lparr>filename = py_basename file_path, content = c\<rparr> else None)
     | Unreadable \<Rightarrow> None)"

definition load_sql_files :: "world \<Rightarrow> string \<Rightarrow> sql_file list" where
  "load_sql_files w directory = List.map_filter (load_one w) (sort (glob_sql w directory))"


definition example_dir :: "(string \<times> file_read) list" where
  "example_dir =
    [(''b.sql'', Content ''select 2''),
     (''a.sql'', Content ''  ''),
     (''.x.sql'', Content ''select 3''),
     (''c.sql'', Unreadable),
     (''B.sql'', Content '' select 1 ''),
     (''notes.txt'', Content ''select 4'')]"

section \<open>The round orchestrator\<close>

text \<open>The inner loop of \<open>execute_all_queries\<close>: every file in order, each result appended
  to \<open>self.results\<close>.\<close>

fun run_queries ::
  "bool \<Rightarrow> bool \<Rightarrow> int \<Rightarrow> sql_file list \<Rightarrow> executor \<Rightarrow> world \<Rightarrow> executor \<times> world" where
  "run_queries run_explain detailed r [] self w = (self, w)"
| "run_queries run_explain detailed r (s # ss) self w =
    (let qname = filename s @ ''_round'' @ py_str_int r in
     case dispatch run_explain detailed self (content s) qname w of
       (res, w') \<Rightarrow>
         run_queries run_explain detailed r ss (self\<lparr>results := results self @ [res]\<rparr>) w')"

text \<open>
  \<open>sum(1 for x in self.results if x["status"] == st and f"_round{r}" in x["query_name"])\<close>:
  \<open>x["status"]\<close> raises \<open>KeyError\<close> on a dict without that key; \<open>in\<close> on strings is the
  substring test.
\<close>

definition has_status :: "reply \<Rightarrow> bool" where
  "has_status x = (case x of NotConnected \<Rightarrow> False | Result e \<Rightarrow> True)"

definition counted_in_round :: "status \<Rightarrow> int \<Rightarrow> reply \<Rightarrow> bool" where
  "counted_in_round st r x =
    (case x of
       NotConnected \<Rightarrow> False
     | Result e \<Rightarrow> status e = st \<and> sublist (''_round'' @ py_str_int r) (query_name e))"

definition count_round :: "status \<Rightarrow> int \<Rightarrow> reply list \<Rightarrow> py_error + nat" where
  "count_round st r xs =
    (if list_all has_status xs then Inr (length (filter (counted_in_round st r) xs))
     else Inl KeyError)"

text \<open>The outer loop, over the round numbers: the round is timed, its duration appended
  to the local list \<open>round_times\<close>, and the line "Round r done" printed with the two counts.\<close>

fun run_rounds ::
  "bool \<Rightarrow> bool \<Rightarrow> sql_file list \<Rightarrow> int list \<Rightarrow> real list \<Rightarrow> executor \<Rightarrow> world
    \<Rightarrow> py_error + (executor \<times> real list \<times> world)" where
  "run_rounds run_explain detailed files [] rts self w = Inr (self, rts, w)"
| "run_rounds run_explain detailed files (r # rs) rts self w =
    (let r0 = reading w 0 in
     case run_queries run_explain detailed r files self (advance 1 w) of
       (self1, w1) \<Rightarrow>
         let rt = reading w1 0 - r0; w2 = advance 1 w1 in
         (case count_round Status_success r (results self1) of
            Inl e \<Rightarrow> Inl e
          | Inr succ \<Rightarrow>
              (case count_round Status_error r (results self1) of
                 Inl e \<Rightarrow> Inl e
               | Inr fail \<Rightarrow>
                   run_rounds run_explain detailed files rs (rts @ [rt]) self1
                     (w2\<lparr>round_reports := round_reports w2 @ [(r, rt, succ, fail)]\<rparr>))))"

text \<open>\<open>min\<close> and \<open>max\<close> of a list raise \<open>ValueError\<close> on the empty list;
  \<open>statistics.stdev\<close> is the sample standard deviation.\<close>

definition py_min :: "real list \<Rightarrow> py_error + real" where
  "py_min xs = (case xs of [] \<Rightarrow> Inl ValueError | x # ys \<Rightarrow> Inr (fold min ys x))"

definition py_max :: "real list \<Rightarrow> py_error + real" where
  "py_max xs = (case xs of [] \<Rightarrow> Inl ValueError | x # ys \<Rightarrow> Inr (fold max ys x))"

definition py_stdev :: "real list \<Rightarrow> real" where
  "py_stdev xs =
    (let m = sum_list xs / real (length xs)
     in sqrt (sum_list (map (\<lambda>x. (x - m) ^ 2) xs) / real (length xs - 1)))"

text \<open>The statistics at the end of \<open>execute_all_queries\<close>, in the order of the source:
  the total, the average (a division by \<open>iterations\<close>), the minimum, the maximum, the
  deviation.\<close>

definition round_statistics :: "real list \<Rightarrow> int \<Rightarrow> py_error + round_totals" where
  "round_statistics rts iterations =
    (if iterations = 0 then Inl ZeroDivisionError
     else
       (case py_min rts of
          Inl e \<Rightarrow> Inl e
        | Inr mn \<Rightarrow>
            (case py_max rts of
               Inl e \<Rightarrow> Inl e
             | Inr mx \<Rightarrow>
                 Inr \<lparr>total_time = sum_list rts,
                      avg_time = sum_list rts / real_of_int iterations,
                      min_time = mn,
                      max_time = mx,
                      std_dev = (if length rts > 1 then py_stdev rts else 0)\<rparr>)))"

text \<open>
  \<open>execute_all_queries\<close>. \<open>range(1, iterations + 1)\<close> is the list \<open>[1..iterations]\<close>. \<open>Inl\<close>
  is an exception that leaves the method. \<open>disconnect()\<close> closes the connection and
  changes no attribute.
\<close>

definition execute_all_queries ::
  "executor \<Rightarrow> string \<Rightarrow> int \<Rightarrow> bool \<Rightarrow> bool \<Rightarrow> world \<Rightarrow> py_error + (executor \<times> world)" where
  "execute_all_queries self sql_directory iterations detailed run_explain w =
    (case connect self w of
       (ok, ct, self1, w1) \<Rightarrow>
         if \<not> ok then Inr (self1, w1)
         else
           let self2 = self1\<lparr>connect_time := ct\<rparr>;
               sql_files = load_sql_files w1 sql_directory
           in (case run_rounds run_explain detailed sql_files [1..iterations] [] self2 w1 of
                 Inl e \<Rightarrow> Inl e
               | Inr (self3, rts, w2) \<Rightarrow>
                   (case round_statistics rts iterations of
                      Inl e \<Rightarrow> Inl e
                    | Inr totals \<Rightarrow>
                        Inr (self3\<lparr>round_times := rts\<rparr>,
                             w2\<lparr>printed_totals := printed_totals w2 @ [totals]\<rparr>))))"

section \<open>The result aggregator\<close>

record round_stats =
  rounds :: nat
  average_round_time :: real
  min_round_time :: real
  max_round_time :: real
  total_round_time :: real
  std_deviation :: real

text \<open>The \<open>summary\<close> block; \<open>round_stats\<close> is \<open>None\<close> when the six round keys were not added.\<close>

record report_summary =
  total_queries :: nat
  successful_queries :: nat
  failed_queries :: nat
  total_execution_time :: real
  average_query_time :: real
  round_stats :: "round_stats option"

record session_report =
  report_environment :: string
  connection_time :: real
  summary :: report_summary
  report_round_times :: "real list"
  query_results :: "reply list"

text \<open>\<open>r.get("status") == st\<close> and \<open>r.get("execution_time", 0.0)\<close>.\<close>

definition get_status_is :: "status \<Rightarrow> reply \<Rightarrow> bool" where
  "get_status_is st x = (case x of NotConnected \<Rightarrow> False | Result e \<Rightarrow> status e = st)"

definition get_execution_time :: "reply \<Rightarrow> real" where
  "get_execution_time x = (case x of NotConnected \<Rightarrow> 0 | Result e \<Rightarrow> execution_time e)"

text \<open>
  \<open>save_results\<close>, up to the dict handed to \<open>json.dump\<close>. \<open>Inl\<close> is an exception caught by
  the handler ("Save failed"): \<open>r["status"]\<close> raises \<open>KeyError\<close> on a dict without status.
\<close>

definition save_results :: "executor \<Rightarrow> py_error + session_report" where
  "save_results self =
    (let total_exec = sum_list (map get_execution_time
                         (filter (get_status_is Status_success) (results self)));
         n = length (results self);
         avg_query_time = (if n \<noteq> 0 then total_exec / real n else 0)
     in if \<not> list_all has_status (results self) then Inl KeyError
        else
          Inr \<lparr>report_environment = environment_name self,
               connection_time = connect_time self,
               summary =
                 \<lparr>total_queries = length (results self),
                  successful_queries = length (filter (get_status_is Status_success) (results self)),
                  failed_queries = length (filter (get_status_is Status_error) (results self)),
                  total_execution_time = total_exec,
                  average_query_time = avg_query_time,
                  round_stats =
                    (case round_times self of
                       [] \<Rightarrow> None
                     | t # ts \<Rightarrow>
                         Some \<lparr>rounds = length (round_times self),
                               average_round_time =
                                 sum_list (round_times self) / real (length (round_times self)),
                               min_round_time = fold min ts t,
                               max_round_time = fold max ts t,
                               total_round_time = sum_list (round_times self),
                               std_deviation =
                                 (if length (round_times self) > 1 then py_stdev (round_times self)
                                  else 0)\<rparr>)\<rparr>,
               report_round_times = round_times self,
               query_results = results self\<rparr>)"

subsection \<open>Example results and worlds\<close>

text \<open>A successful result of 2 seconds and a failed one of 1 second; a world in which
  the connection is refused.\<close>

definition ok_result :: exec_result where
  "ok_result =
    \<lparr>query_name = ''a.sql_round1'', environment = ''kvm'', execution_time = 2,
     status = Status_success, error = None, timestamp = ''2025-01-01T00:00:00'',
     detailed_timing = None, row_count = Some (JInt 1), column_names = Some [''x''],
     result_rows = Some [(JInt 1, [])], plan_summary = None, plan_json = None\<rparr>"

definition failed_result :: exec_result where
  "failed_result =
    \<lparr>query_name = ''b.sql_round1'', environment = ''kvm'', execution_time = 1,
     status = Status_error, error = Some ''relation does not exist'',
     timestamp = ''2025-01-01T00:00:01'',
     detailed_timing = None, row_count = None, column_names = None,
     result_rows = None, plan_summary = None, plan_json = None\<rparr>"

definition refused_world :: world where
  "refused_world = (demo_world rows_server example_dir)\<lparr>connect_reply := ConnectRefused\<rparr>"

text \<open>The round number and the two counts of every printed line "Round r done".\<close>

definition reported_counts :: "world \<Rightarrow> (int \<times> nat \<times> nat) list" where
  "reported_counts w = map (\<lambda>(r, rt, succ, fail). (r, succ, fail)) (round_reports w)"

text \<open>The test of the specification: the status is the given one and the qualified name
  ends with \<open>_round\<close> and the round number.\<close>

definition ends_in_round :: "status \<Rightarrow> int \<Rightarrow> reply \<Rightarrow> bool" where
  "ends_in_round st r x =
    (case x of
       NotConnected \<Rightarrow> False
     | Result e \<Rightarrow> status e = st \<and> suffix (''_round'' @ py_str_int r) (query_name e))"

definition reply_name :: "reply \<Rightarrow> string" where
  "reply_name x = (case x of NotConnected \<Rightarrow> [] | Result e \<Rightarrow> query_name e)"

text \<open>A directory whose only file has a round marker in its name.\<close>

definition marker_dir :: "(string \<times> file_read) list" where
  "marker_dir = [(''q_round2.sql'', Content ''select 1'')]"

section \<open>Properties of the scenario mapping\<close>

lemma map_scenario_empty: "map_scenario [] = ''NONE''"
  by (simp add: map_scenario_def)

lemma of_char_lt_256: "(of_char c :: nat) < 256"
  by (cases c) simp

lemma lower_upper_char: "py_lower_char (py_upper_char c) = py_lower_char c"
  using of_char_lt_256 [of c]
  by (auto simp: py_lower_char_def py_upper_char_def Let_def)

lemma upper_upper_char: "py_upper_char (py_upper_char c) = py_upper_char c"
  using of_char_lt_256 [of c]
  by (auto simp: py_upper_char_def Let_def)

lemma isspace_upper_char: "py_isspace (py_upper_char c) = py_isspace c"
  using of_char_lt_256 [of c]
  by (auto simp: py_upper_char_def py_isspace_def Let_def)

lemma py_lower_upper: "py_lower (py_upper s) = py_lower s"
  by (simp add: py_lower_def py_upper_def lower_upper_char)

lemma py_upper_upper: "py_upper (py_upper s) = py_upper s"
  by (simp add: py_upper_def upper_upper_char)

lemma dropWhile_upper:
  "dropWhile py_isspace (map py_upper_char s) = map py_upper_char (dropWhile py_isspace s)"
  by (induction s) (simp_all add: isspace_upper_char)

lemma py_strip_upper: "py_strip (py_upper s) = py_upper (py_strip s)"
proof -
  have "dropWhile py_isspace (rev (map py_upper_char (dropWhile py_isspace s)))
      = dropWhile py_isspace (map py_upper_char (rev (dropWhile py_isspace s)))"
    by (simp only: rev_map)
  also have "\<dots> = map py_upper_char (dropWhile py_isspace (rev (dropWhile py_isspace s)))"
    by (rule dropWhile_upper)
  finally show ?thesis
    by (simp add: py_strip_def py_upper_def dropWhile_upper rev_map)
qed

lemma dropWhile_rev_dropWhile:
  "dropWhile P (rev (dropWhile P (rev (dropWhile P s)))) = rev (dropWhile P (rev (dropWhile P s)))"
proof (cases "dropWhile P s")
  case Nil
  then show ?thesis by (simp only: rev.simps dropWhile.simps)
next
  case (Cons a t)
  then have na: "\<not> P a"
    using hd_dropWhile [of P s] by auto
  have "\<exists>u. rev (dropWhile P (rev (a # t))) = a # u"
  proof (cases "dropWhile P (rev t)")
    case Nil
    then show ?thesis using na by (simp add: dropWhile_append)
  next
    case (Cons b v)
    then have "dropWhile P (rev t @ [a]) = dropWhile P (rev t) @ [a]"
      by (metis dropWhile_append1 dropWhile_eq_Nil_conv list.distinct(1))
    then show ?thesis by simp
  qed
  then show ?thesis using na Cons by auto
qed

lemma py_strip_strip: "py_strip (py_strip s) = py_strip s"
proof -
  let ?t = "rev (dropWhile py_isspace (rev (dropWhile py_isspace s)))"
  have "dropWhile py_isspace ?t = ?t" by (rule dropWhile_rev_dropWhile)
  moreover have "dropWhile py_isspace (rev ?t) = rev ?t"
    by (simp add: dropWhile_idem)
  ultimately show ?thesis by (simp add: py_strip_def)
qed

lemma map_scenario_labels: "map map_scenario canonical_labels = canonical_labels"
  by code_simp

lemma map_scenario_canonical: "l \<in> set canonical_labels \<Longrightarrow> map_scenario l = l"
  using map_scenario_labels by (simp add: canonical_labels_def) blast

lemma scenario_mapping_range: "map_of scenario_mapping k = Some l \<Longrightarrow> l \<in> set canonical_labels"
  by (drule map_of_SomeD) (auto simp: scenario_mapping_def canonical_labels_def)

text \<open>
  Claim C9, as the code has it. \<open>map_scenario\<close> returns a label for every string and maps
  the empty string to \<open>NONE\<close>; each of the eight canonical labels is mapped to itself;
  and for every ASCII input that is empty or holds a character that is not white space,
  mapping the result a second time returns it unchanged. (A non-empty input of white
  space only is left out: see the counterexample.)
\<close>

theorem map_scenario_idempotent:
  "map_scenario [] = ''NONE''
   \<and> map map_scenario canonical_labels = canonical_labels
   \<and> (ascii_str x \<longrightarrow> x = [] \<or> py_strip x \<noteq> [] \<longrightarrow>
        map_scenario (map_scenario x) = map_scenario x)"
proof -
  have "map_scenario (map_scenario x) = map_scenario x" if nb: "x = [] \<or> py_strip x \<noteq> []"
  proof (cases "x = []")
    case True
    then show ?thesis
      using map_scenario_canonical [of "''NONE''"]
      by (simp add: map_scenario_def canonical_labels_def)
  next
    case False
    with nb have ne: "py_strip x \<noteq> []" by simp
    show ?thesis
    proof (cases "map_of scenario_mapping (py_lower (py_strip x))")
      case (Some l)
      then have "map_scenario x = l" using False by (simp add: map_scenario_def)
      then show ?thesis
        using map_scenario_canonical scenario_mapping_range [OF Some] by simp
    next
      case None
      then have y: "map_scenario x = py_upper (py_strip x)"
        using False by (simp add: map_scenario_def)
      have "py_upper (py_strip x) \<noteq> []" using ne by (simp add: py_upper_def)
      moreover have "py_strip (py_upper (py_strip x)) = py_upper (py_strip x)"
        by (simp add: py_strip_upper py_strip_strip)
      ultimately show ?thesis
        using None
        by (simp add: y map_scenario_def [of "py_upper (py_strip x)"] py_lower_upper py_upper_upper)
    qed
  qed
  then show ?thesis
    using map_scenario_empty map_scenario_labels by blast
qed

text \<open>The theorem at the input \<open>" Foo "\<close>, an unknown label: it is stripped and upper-cased
  to \<open>FOO\<close>, which maps to itself.\<close>

theorem map_scenario_idempotent_witness:
  "ascii_str '' Foo '' \<and> py_strip '' Foo '' \<noteq> [] \<and> map_scenario '' Foo '' = ''FOO''
   \<and> map_scenario (map_scenario '' Foo '') = map_scenario '' Foo ''"
proof -
  have a: "ascii_str '' Foo ''" by code_simp
  have b: "py_strip '' Foo '' \<noteq> []" by code_simp
  have c: "map_scenario '' Foo '' = ''FOO''" by code_simp
  from map_scenario_idempotent [of "'' Foo ''"] a b
  have "map_scenario (map_scenario '' Foo '') = map_scenario '' Foo ''" by blast
  with a b c show ?thesis by blast
qed

text \<open>
  Claim C9 as stated fails at the input of one space: the guard for the empty string does
  not fire, the stripped key is empty and unknown, so the result is the empty string; and
  the empty string maps to \<open>NONE\<close>.
\<close>

theorem map_scenario_blank_counterexample:
  "map_scenario '' '' = [] \<and> map_scenario (map_scenario '' '') = ''NONE''
   \<and> map_scenario (map_scenario '' '') \<noteq> map_scenario '' ''"
  by code_simp

section \<open>Properties of the buffer aggregation\<close>

lemma agg_get_update: "agg_get (AList.update k' v agg) k = (if k = k' then v else agg_get agg k)"
  by (simp add: agg_get_def update_conv')

lemma agg_get_add_counter:
  "agg_get (add_counter p agg k') k = agg_get agg k + (if k = k' then doc_counter p k else 0)"
  by (simp add: add_counter_def doc_counter_def agg_get_update split: option.splits)

lemma agg_get_foldl_add_counter:
  "distinct ks \<Longrightarrow>
   agg_get (foldl (add_counter p) agg ks) k = agg_get agg k + (if k \<in> set ks then doc_counter p k else 0)"
  by (induction ks arbitrary: agg) (auto simp: agg_get_add_counter)

lemma distinct_buffer_keys: "distinct buffer_keys"
  by (simp add: buffer_keys_def)

lemma agg_get_add_counters:
  "agg_get (add_counters p agg) k = agg_get agg k + (if k \<in> set buffer_keys then doc_counter p k else 0)"
  by (simp add: add_counters_def agg_get_foldl_add_counter distinct_buffer_keys)

lemma map_of_tabulate:
  "map_of (map (\<lambda>k. (k, f k)) ks) k = (if k \<in> set ks then Some (f k) else None)"
  by (induction ks) auto

lemma node_counter_buffers_of:
  "node_counter k (PlanNode a (buffers_of p) cs ws) = (if k \<in> set buffer_keys then doc_counter p k else 0)"
proof -
  let ?ks = "filter (\<lambda>k. py_get p k \<noteq> JNull) buffer_keys"
  let ?b = "map (\<lambda>k. (k, py_get p k)) ?ks"
  have look: "map_of ?b k = (if k \<in> set buffer_keys \<and> py_get p k \<noteq> JNull then Some (py_get p k) else None)"
    by (simp add: map_of_tabulate)
  have val: "(case map_of ?b k of None \<Rightarrow> 0 | Some v \<Rightarrow> (case num_as_int v of None \<Rightarrow> 0 | Some i \<Rightarrow> i))
      = (if k \<in> set buffer_keys then doc_counter p k else 0)"
    unfolding look by (auto simp: doc_counter_def py_get_def split: option.splits)
  show ?thesis
  proof (cases "?b = []")
    case True
    then have "map_of ?b k = None" by simp
    with val have "(if k \<in> set buffer_keys then doc_counter p k else 0) = 0" by simp
    with True show ?thesis by (simp add: node_counter_def buffers_of_def)
  next
    case False
    then show ?thesis using val by (simp add: node_counter_def buffers_of_def Let_def)
  qed
qed

lemma collect_extract:
  "collect_buffers p agg = Inr agg' \<Longrightarrow> extract_plan_tree p = Inr t \<Longrightarrow> k \<in> set buffer_keys \<Longrightarrow>
     agg_get agg' k = agg_get agg k + children_sum k t"
  "collect_children cs agg = Inr agg' \<Longrightarrow> extract_children cs = Inr ts \<Longrightarrow> k \<in> set buffer_keys \<Longrightarrow>
     agg_get agg' k = agg_get agg k + sum_list (map (children_sum k) ts)"
proof (induction p agg and cs agg arbitrary: agg' t and agg' ts rule: collect_buffers_collect_children.induct)
  case (1 p agg)
  from "1.prems"(1) obtain cs where cs: "plans_of p = Inr cs"
    and cc: "collect_children cs (add_counters p agg) = Inr agg'"
    by (auto split: sum.splits)
  from "1.prems"(2) cs obtain kids ws where kids: "extract_children cs = Inr kids"
    and t: "t = PlanNode (node_attrs p) (buffers_of p) kids ws"
    by (auto split: sum.splits option.splits json.splits)
  from "1.IH" [OF cs cc kids "1.prems"(3)]
  have "agg_get agg' k = agg_get (add_counters p agg) k + sum_list (map (children_sum k) kids)" .
  then show ?case
    using "1.prems"(3) by (simp add: t agg_get_add_counters node_counter_buffers_of)
next
  case (2 agg)
  then show ?case by simp
next
  case (3 c cs agg)
  show ?case
  proof (cases c)
    case (JDict q)
    from "3.prems"(1) JDict obtain agg1 where a1: "collect_buffers q agg = Inr agg1"
      and a2: "collect_children cs agg1 = Inr agg'"
      by (auto split: sum.splits)
    from "3.prems"(2) JDict obtain t1 ts1 where t1: "extract_plan_tree q = Inr t1"
      and t2: "extract_children cs = Inr ts1" and ts: "ts = t1 # ts1"
      by (auto split: sum.splits)
    have "agg_get agg1 k = agg_get agg k + children_sum k t1"
      by (rule "3.IH"(7) [OF JDict a1 t1 "3.prems"(3)])
    moreover have "agg_get agg' k = agg_get agg1 k + sum_list (map (children_sum k) ts1)"
      by (rule "3.IH"(8) [OF JDict a1 a2 t2 "3.prems"(3)])
    ultimately show ?thesis by (simp add: ts)
  qed (use "3.prems" "3.IH" in simp_all)
qed


text \<open>
  Claim C1, as the code has it. When \<open>summarize_plan\<close> yields a summary, the aggregated
  value of every buffer counter in it is the sum, over the root and the nodes reached
  through child links, of the integer value of that counter: an int as it is, a float
  truncated towards zero, a bool as 1 or 0; a node on which the counter is absent or of
  any other type adds 0. (Nodes nested in worker records are not part of this sum.)
\<close>

theorem summary_buffers_sum_children:
  assumes "summarize_plan doc = Inr s" and "k \<in> set buffer_keys"
  shows "summary_buffer s k = children_sum k (complete_plan_tree s)"
proof -
  from assms(1) obtain plan agg tree where
    c: "collect_buffers plan [] = Inr agg" and e: "extract_plan_tree plan = Inr tree"
    and b: "buffers s = (if agg = [] then None else Some agg)"
    and t: "complete_plan_tree s = tree"
    unfolding summarize_plan_def Let_def
    by (fastforce split: json.splits list.splits option.splits sum.splits)
  have "agg_get agg k = agg_get [] k + children_sum k tree"
    by (rule collect_extract(1) [OF c e assms(2)])
  then show ?thesis
    by (cases "agg = []") (simp_all add: summary_buffer_def b t agg_get_def)
qed

text \<open>The theorem on the join over one scan: 3 + 4 shared hits.\<close>

theorem summary_buffers_sum_children_witness:
  "''Shared Hit Blocks'' \<in> set buffer_keys
   \<and> (case summarize_plan two_level_doc of
        Inl e \<Rightarrow> False
      | Inr s \<Rightarrow> summary_buffer s ''Shared Hit Blocks'' = 7
          \<and> length (children (complete_plan_tree s)) = 1
          \<and> summary_buffer s ''Shared Hit Blocks''
              = children_sum ''Shared Hit Blocks'' (complete_plan_tree s))"
proof -
  have k: "''Shared Hit Blocks'' \<in> set buffer_keys"
    by (simp add: buffer_keys_def)
  have "(case summarize_plan two_level_doc of
        Inl e \<Rightarrow> False
      | Inr s \<Rightarrow> summary_buffer s ''Shared Hit Blocks'' = 7
          \<and> length (children (complete_plan_tree s)) = 1)"
    by code_simp
  then obtain s where s: "summarize_plan two_level_doc = Inr s"
    and v: "summary_buffer s ''Shared Hit Blocks'' = 7"
           "length (children (complete_plan_tree s)) = 1"
    by (auto split: sum.splits)
  from summary_buffers_sum_children [OF s k] k v show ?thesis
    by (simp add: s)
qed

text \<open>
  Claim C1 as stated fails on the gather node: the decoded tree holds the plan nested in
  the worker (5 shared hits), so the sum over every node of the tree is 12, and the
  aggregate of the summary is 7.
\<close>

theorem summary_buffers_workers_counterexample:
  "(case summarize_plan worker_plan_doc of
      Inl e \<Rightarrow> None
    | Inr s \<Rightarrow> Some (summary_buffer s ''Shared Hit Blocks'',
                      tree_sum ''Shared Hit Blocks'' (complete_plan_tree s)))
   = Some (7, 12)"
  by code_simp

section \<open>Properties of the dispatch strategies\<close>

text \<open>
  Claim C5. In detailed mode every successful result carries the four phase durations,
  each the difference of the two clock readings around its phase, and its
  \<open>execution_time\<close> is exactly their sum. (It is not the difference of an outer pair of
  readings: see the witness, where the sum is 36 and the outer difference is 64.)
\<close>

theorem detailed_time_is_phase_sum:
  assumes "fst (execute_query_with_detailed_timing self query qname w) = Result r"
    and "status r = Status_success"
  shows "\<exists>tm. detailed_timing r = Some tm
     \<and> execution_time r = cursor_creation_time tm + query_execution_time tm
          + result_fetch_time tm + column_info_time tm
     \<and> cursor_creation_time tm = reading w 2 - reading w 1
     \<and> query_execution_time tm = reading w 4 - reading w 3
     \<and> result_fetch_time tm = reading w 6 - reading w 5
     \<and> column_info_time tm = reading w 8 - reading w 7"
  using assms
  by (auto simp: execute_query_with_detailed_timing_def Let_def error_result_def
      split: if_splits db_reply.splits)

text \<open>The theorem in the example world: the phases last 3, 7, 11 and 15.\<close>

theorem detailed_time_is_phase_sum_witness:
  "(case fst (execute_query_with_detailed_timing demo_executor ''select 1'' ''q.sql_round1''
        (demo_world rows_server [])) of
      NotConnected \<Rightarrow> False
    | Result r \<Rightarrow> status r = Status_success \<and> execution_time r = 36
        \<and> execution_time r \<noteq> reading (demo_world rows_server []) 8 - reading (demo_world rows_server []) 0
        \<and> (\<exists>tm. detailed_timing r = Some tm
             \<and> execution_time r = cursor_creation_time tm + query_execution_time tm
                + result_fetch_time tm + column_info_time tm))"
proof -
  let ?w = "demo_world rows_server []"
  have "(case fst (execute_query_with_detailed_timing demo_executor ''select 1'' ''q.sql_round1'' ?w) of
      NotConnected \<Rightarrow> False
    | Result r \<Rightarrow> status r = Status_success \<and> execution_time r = 36
        \<and> execution_time r \<noteq> reading ?w 8 - reading ?w 0)"
    by (simp add: execute_query_with_detailed_timing_def demo_executor_def new_executor_def
        demo_world_def rows_server_def reading_def ask_def Let_def)
  then obtain r where r: "fst (execute_query_with_detailed_timing demo_executor ''select 1'' ''q.sql_round1'' ?w) = Result r"
    and s: "status r = Status_success" and v: "execution_time r = 36"
      "execution_time r \<noteq> reading ?w 8 - reading ?w 0"
    by (auto split: reply.splits)
  from detailed_time_is_phase_sum [OF r s] s v show ?thesis
    by (auto simp: r)
qed

text \<open>The \<open>execution_time_ms\<close> of a summary is the \<open>Execution Time\<close> of the document.\<close>

lemma summarize_plan_document_time:
  assumes "summarize_plan doc = Inr s"
  shows "execution_time_ms s = document_execution_time doc"
proof (cases "case doc of JList (x # xs) \<Rightarrow> x | _ \<Rightarrow> doc")
  case (JDict t)
  with assms have "execution_time_ms s = py_get t ''Execution Time''"
    unfolding summarize_plan_def Let_def
    by (auto split: json.splits sum.splits option.splits)
  with JDict show ?thesis by (simp add: document_execution_time_def)
qed (use assms in \<open>simp_all add: summarize_plan_def Let_def\<close>)

lemma ask_advance: "ask (advance n w) stmt = ask w stmt"
  by (simp add: ask_def advance_def)

text \<open>
  Claim C3, as the code has it. In plan mode every successful result comes from a reply
  whose first row holds the plan document in its first column, and carries the summary
  of that document. When the document is summarized without error and its
  \<open>Execution Time\<close> is an int, a float or a bool (\<open>isinstance(v, (int, float))\<close>; \<open>True\<close>
  counts as 1), \<open>execution_time\<close> is that value divided by 1000. Otherwise, that is when
  the value is absent or of another type, or when the summary is the error form,
  \<open>execution_time\<close> is the client's elapsed time \<open>t1 - t0\<close> around the instrumented call.
\<close>

theorem explain_time_from_document:
  assumes "fst (execute_query_with_explain self query qname w) = Result r"
    and "status r = Status_success"
  shows "\<exists>doc others later desc.
      ask w (build_explain_sql self query) = Rows ((doc, others) # later) desc
    \<and> plan_summary r = Some (summarize_plan doc)
    \<and> execution_time r =
        (case summarize_plan doc of
           Inl e \<Rightarrow> reading w 1 - reading w 0
         | Inr s \<Rightarrow>
             (case num_as_real (document_execution_time doc) of
                Some ms \<Rightarrow> ms / 1000
              | None \<Rightarrow> reading w 1 - reading w 0))"
proof -
  from assms have c: "connection self"
    by (auto simp: execute_query_with_explain_def split: if_splits)
  from assms c obtain doc others later desc where
    a: "ask w (build_explain_sql self query) = Rows ((doc, others) # later) desc"
    by (cases "ask w (build_explain_sql self query)")
       (auto simp: execute_query_with_explain_def get_explain_analyze_json_def Let_def
          ask_advance error_result_def split: list.splits)
  from assms c a have p: "plan_summary r = Some (summarize_plan doc)"
    and t: "execution_time r =
        (case num_as_real (summary_execution_ms (summarize_plan doc)) of
           Some ms \<Rightarrow> ms / 1000
         | None \<Rightarrow> reading w 1 - reading w 0)"
    by (auto simp: execute_query_with_explain_def get_explain_analyze_json_def Let_def ask_advance
        split: option.splits)
  have "execution_time r =
        (case summarize_plan doc of
           Inl e \<Rightarrow> reading w 1 - reading w 0
         | Inr s \<Rightarrow>
             (case num_as_real (document_execution_time doc) of
                Some ms \<Rightarrow> ms / 1000
              | None \<Rightarrow> reading w 1 - reading w 0))"
  proof (cases "summarize_plan doc")
    case (Inl e)
    with t show ?thesis by (simp add: summary_execution_ms_def)
  next
    case (Inr s)
    with t summarize_plan_document_time [OF Inr] show ?thesis
      by (simp add: summary_execution_ms_def)
  qed
  with a p show ?thesis by blast
qed

text \<open>The theorem on the example document, whose \<open>Execution Time\<close> is 12.5 ms.\<close>

theorem explain_time_from_document_witness:
  "(case fst (execute_query_with_explain demo_executor ''select 1'' ''q.sql_round1''
        (demo_world (doc_server two_level_doc) [])) of
      NotConnected \<Rightarrow> False
    | Result r \<Rightarrow> status r = Status_success \<and> execution_time r = 1 / 80
        \<and> plan_summary r = Some (summarize_plan two_level_doc))
   \<and> num_as_real (document_execution_time two_level_doc) = Some (25 / 2)"
proof -
  let ?w = "demo_world (doc_server two_level_doc) []"
  let ?res = "fst (execute_query_with_explain demo_executor ''select 1'' ''q.sql_round1'' ?w)"
  have "(case ?res of
      NotConnected \<Rightarrow> False
    | Result r \<Rightarrow> status r = Status_success \<and> execution_time r = 1 / 80)"
    by code_simp
  then obtain r where r: "?res = Result r"
    and s: "status r = Status_success" and v: "execution_time r = 1 / 80"
    by (auto split: reply.splits)
  from explain_time_from_document [OF r s] obtain doc others later desc where
    a: "ask ?w (build_explain_sql demo_executor ''select 1'') = Rows ((doc, others) # later) desc"
    and p: "plan_summary r = Some (summarize_plan doc)"
    by blast
  from a have "doc = two_level_doc"
    by (simp add: ask_def demo_world_def doc_server_def)
  with p have p2: "plan_summary r = Some (summarize_plan two_level_doc)" by simp
  have d: "num_as_real (document_execution_time two_level_doc) = Some (25 / 2)"
    by code_simp
  from r s v p2 d show ?thesis by simp
qed

text \<open>
  Claim C3 as stated fails on two documents. The first reports 12.5 ms, but its \<open>Plans\<close>
  entry cannot be iterated, so \<open>summarize_plan\<close> returns the error form and the result
  carries the client time (here 1). The second reports the boolean \<open>true\<close>, which is not
  a number of the document and yet is divided by 1000.
\<close>

theorem explain_time_counterexample:
  "(case fst (execute_query_with_explain demo_executor ''select 1'' ''q.sql_round1''
        (demo_world (doc_server undecodable_doc) [])) of
      NotConnected \<Rightarrow> None
    | Result r \<Rightarrow> Some (status r, execution_time r)) = Some (Status_success, 1)
   \<and> num_as_real (document_execution_time undecodable_doc) = Some (25 / 2)
   \<and> (case fst (execute_query_with_explain demo_executor ''select 1'' ''q.sql_round1''
        (demo_world (doc_server bool_time_doc) [])) of
      NotConnected \<Rightarrow> None
    | Result r \<Rightarrow> Some (status r, execution_time r)) = Some (Status_success, 1 / 1000)
   \<and> document_execution_time bool_time_doc = JBool True"
  by code_simp





section \<open>Properties of the session report\<close>

text \<open>What \<open>save_results\<close> computes: the total over the successful results, divided by
  the number of all results.\<close>

lemma save_results_average:
  "save_results self = Inr rep \<Longrightarrow>
     total_execution_time (summary rep)
       = sum_list (map get_execution_time (filter (get_status_is Status_success) (results self)))
     \<and> average_query_time (summary rep)
       = (if results self = [] then 0
          else total_execution_time (summary rep) / real (length (results self)))"
  by (auto simp: save_results_def Let_def split: if_splits)

text \<open>
  Claim C2 at the results of one success (2 seconds) and one error (1 second): the total
  is 2 and one result is successful, and the reported average is 1, the total divided by
  the two results, where the claim gives 2.
\<close>

theorem save_results_average_over_all:
  "(case save_results
      ((new_executor ''kvm'' False None None)\<lparr>results := [Result ok_result, Result failed_result]\<rparr>) of
      Inl e \<Rightarrow> None
    | Inr rep \<Rightarrow> Some (total_execution_time (summary rep), successful_queries (summary rep),
                        failed_queries (summary rep), average_query_time (summary rep)))
   = Some (2, 1, 1, 1)"
  by (simp add: save_results_def new_executor_def ok_result_def failed_result_def
      get_status_is_def get_execution_time_def has_status_def Let_def)

text \<open>
  Claim C8. When the connection attempt fails, \<open>execute_all_queries\<close> on a new executor
  returns at once: no result is recorded, the round times stay empty, no statement is
  executed and no round is reported; and the report that \<open>save_results\<close> then builds has
  no round statistics and an empty list of round times.
\<close>

theorem failed_connection_aborts:
  assumes "connect_reply w \<noteq> Accepted"
  shows "\<exists>self' w'.
      execute_all_queries (new_executor env full opts tmo) dir iterations detailed run_explain w
        = Inr (self', w')
    \<and> results self' = [] \<and> round_times self' = []
    \<and> executed w' = executed w \<and> calls w' = calls w
    \<and> round_reports w' = round_reports w \<and> printed_totals w' = printed_totals w
    \<and> (\<exists>rep. save_results self' = Inr rep
          \<and> round_stats (summary rep) = None \<and> report_round_times rep = []
          \<and> query_results rep = [] \<and> total_queries (summary rep) = 0)"
  using assms
  by (cases "connect_reply w")
     (simp_all add: execute_all_queries_def connect_def new_executor_def advance_def
        save_results_def Let_def)

text \<open>The theorem in a world that refuses the connection, for five rounds in plan mode.\<close>

theorem failed_connection_aborts_witness:
  "connect_reply refused_world \<noteq> Accepted
   \<and> (case execute_all_queries (new_executor ''kvm'' False None None) ''job_queries'' 5 False True
            refused_world of
        Inl e \<Rightarrow> False
      | Inr (self', w') \<Rightarrow> results self' = [] \<and> round_times self' = [] \<and> executed w' = []
          \<and> round_reports w' = []
          \<and> (case save_results self' of
                Inl e \<Rightarrow> False
              | Inr rep \<Rightarrow> round_stats (summary rep) = None \<and> report_round_times rep = []))"
proof -
  have r: "connect_reply refused_world \<noteq> Accepted"
    by (simp add: refused_world_def)
  have e: "executed refused_world = []" "round_reports refused_world = []"
    by (simp_all add: refused_world_def demo_world_def)
  from failed_connection_aborts [OF r, of "''kvm''" False None None "''job_queries''" 5 False True] e r
  show ?thesis by auto
qed


section \<open>Properties of the round orchestrator\<close>

text \<open>With a connection every strategy returns a result with a status, so the counts of
  a round raise no \<open>KeyError\<close> and every round adds one duration.\<close>

lemma dispatch_has_status:
  "connection self \<Longrightarrow> has_status (fst (dispatch run_explain detailed self query qname w))"
  by (auto simp: dispatch_def has_status_def execute_query_simple_def
      execute_query_with_detailed_timing_def execute_query_with_explain_def Let_def
      split: db_reply.splits prod.splits sum.splits)

lemma run_queries_keeps:
  "run_queries run_explain detailed r files self w = (self', w') \<Longrightarrow>
   connection self \<Longrightarrow> list_all has_status (results self) \<Longrightarrow>
   connection self' \<and> list_all has_status (results self')"
proof (induction files arbitrary: self w)
  case Nil
  then show ?case by simp
next
  case (Cons s ss)
  let ?q = "filename s @ ''_round'' @ py_str_int r"
  obtain res w1 where d: "dispatch run_explain detailed self (content s) ?q w = (res, w1)"
    by (cases "dispatch run_explain detailed self (content s) ?q w")
  with dispatch_has_status [OF Cons.prems(2), of run_explain detailed "content s" ?q w]
  have hs: "has_status res" by simp
  from Cons.prems(1) d
  have "run_queries run_explain detailed r ss (self\<lparr>results := results self @ [res]\<rparr>) w1 = (self', w')"
    by (simp add: Let_def)
  from Cons.IH [OF this] Cons.prems(2,3) hs show ?case by simp
qed

lemma run_rounds_total:
  "connection self \<Longrightarrow> list_all has_status (results self) \<Longrightarrow>
   \<exists>self' rts' w'. run_rounds run_explain detailed files rs rts self w = Inr (self', rts', w')
      \<and> length rts' = length rts + length rs"
proof (induction rs arbitrary: rts self w)
  case Nil
  then show ?case by simp
next
  case (Cons r rs)
  obtain self1 w1 where q: "run_queries run_explain detailed r files self (advance 1 w) = (self1, w1)"
    by (cases "run_queries run_explain detailed r files self (advance 1 w)")
  from run_queries_keeps [OF q Cons.prems]
  have k: "connection self1" "list_all has_status (results self1)" by simp_all
  let ?rt = "reading w1 0 - reading w 0"
  let ?w2 = "(advance 1 w1)\<lparr>round_reports := round_reports (advance 1 w1)
      @ [(r, ?rt, length (filter (counted_in_round Status_success r) (results self1)),
          length (filter (counted_in_round Status_error r) (results self1)))]\<rparr>"
  from Cons.IH [OF k, of "rts @ [?rt]" ?w2]
  obtain self' rts' w' where
    "run_rounds run_explain detailed files rs (rts @ [?rt]) self1 ?w2 = Inr (self', rts', w')"
    "length rts' = length (rts @ [?rt]) + length rs"
    by blast
  then show ?case
    using q k by (simp add: Let_def count_round_def)
qed

lemma round_statistics_ok:
  "iterations \<noteq> 0 \<Longrightarrow> rts \<noteq> [] \<Longrightarrow> \<exists>totals. round_statistics rts iterations = Inr totals"
  by (cases rts) (simp_all add: round_statistics_def py_min_def py_max_def)

text \<open>
  Claim C10. After a successful connection the statistics at the end of
  \<open>execute_all_queries\<close> are computed only when \<open>iterations\<close> is at least 1: for
  \<open>iterations = 0\<close> no round runs, the list of round durations is empty and the average
  raises \<open>ZeroDivisionError\<close> (the minimum of the empty list, which comes next, would
  raise too, and does for a negative \<open>iterations\<close>); for \<open>iterations\<close> of 1 or more, on
  an executor whose earlier results all have a status, the method returns with one
  duration per round.
\<close>

theorem round_statistics_need_a_round:
  assumes "connect_reply w = Accepted"
  shows "(iterations = 0 \<longrightarrow>
            execute_all_queries self dir iterations detailed run_explain w = Inl ZeroDivisionError)
       \<and> (iterations < 0 \<longrightarrow>
            execute_all_queries self dir iterations detailed run_explain w = Inl ValueError)
       \<and> (1 \<le> iterations \<and> list_all has_status (results self) \<longrightarrow>
            (\<exists>self' w'. execute_all_queries self dir iterations detailed run_explain w = Inr (self', w')
               \<and> length (round_times self') = nat iterations))"
proof (intro conjI impI)
  assume "iterations = 0"
  with assms show "execute_all_queries self dir iterations detailed run_explain w = Inl ZeroDivisionError"
    by (simp add: execute_all_queries_def connect_def round_statistics_def Let_def)
next
  assume "iterations < 0"
  with assms show "execute_all_queries self dir iterations detailed run_explain w = Inl ValueError"
    by (simp add: execute_all_queries_def connect_def round_statistics_def py_min_def Let_def)
next
  assume a: "1 \<le> iterations \<and> list_all has_status (results self)"
  let ?self2 = "self\<lparr>connection := True, connect_time := reading w 1 - reading w 0\<rparr>"
  let ?files = "load_sql_files (advance 2 w) dir"
  have "connection ?self2" "list_all has_status (results ?self2)"
    using a by simp_all
  from run_rounds_total [OF this, of run_explain detailed ?files "[1..iterations]" "[]" "advance 2 w"]
  obtain self3 rts w2 where
    rr: "run_rounds run_explain detailed ?files [1..iterations] [] ?self2 (advance 2 w) = Inr (self3, rts, w2)"
    and len: "length rts = nat iterations"
    by auto
  from len a have "rts \<noteq> []" by auto
  with round_statistics_ok [of iterations rts] a
  obtain totals where st: "round_statistics rts iterations = Inr totals" by auto
  show "\<exists>self' w'. execute_all_queries self dir iterations detailed run_explain w = Inr (self', w')
      \<and> length (round_times self') = nat iterations"
    using assms rr st len
    by (simp add: execute_all_queries_def connect_def Let_def)
qed


text \<open>The theorem in the example world, for 0, -1 and 1 rounds.\<close>

theorem round_statistics_need_a_round_witness:
  "connect_reply (demo_world rows_server example_dir) = Accepted
   \<and> execute_all_queries (new_executor ''kvm'' False None None) ''job_queries'' 0 False False
        (demo_world rows_server example_dir) = Inl ZeroDivisionError
   \<and> execute_all_queries (new_executor ''kvm'' False None None) ''job_queries'' (- 1) False False
        (demo_world rows_server example_dir) = Inl ValueError
   \<and> (case execute_all_queries (new_executor ''kvm'' False None None) ''job_queries'' 1 False False
        (demo_world rows_server example_dir) of
        Inl e \<Rightarrow> False
      | Inr (self', w') \<Rightarrow> length (round_times self') = 1)"
proof -
  let ?w = "demo_world rows_server example_dir"
  let ?s = "new_executor ''kvm'' False None None"
  have a: "connect_reply ?w = Accepted" by (simp add: demo_world_def)
  have r: "list_all has_status (results ?s)" by (simp add: new_executor_def)
  from round_statistics_need_a_round [OF a, of 0 ?s "''job_queries''" False False]
  have z: "execute_all_queries ?s ''job_queries'' 0 False False ?w = Inl ZeroDivisionError"
    by simp
  from round_statistics_need_a_round [OF a, of "- 1" ?s "''job_queries''" False False]
  have n: "execute_all_queries ?s ''job_queries'' (- 1) False False ?w = Inl ValueError"
    by simp
  from round_statistics_need_a_round [OF a, of 1 ?s "''job_queries''" False False] r
  obtain self' w' where "execute_all_queries ?s ''job_queries'' 1 False False ?w = Inr (self', w')"
    "length (round_times self') = 1"
    by auto
  with a z n show ?thesis by simp
qed

text \<open>
  Claim C6 on the directory whose file is named \<open>q_round2.sql\<close>, two rounds, simple mode,
  every query successful. The accumulated names are \<open>q_round2.sql_round1\<close> and
  \<open>q_round2.sql_round2\<close>; one of them ends with \<open>_round2\<close>, and the line printed after
  round 2 counts 2 successes, because the count tests whether the name contains
  \<open>_round2\<close>.
\<close>

theorem round_count_includes_other_round:
  "(case execute_all_queries (new_executor ''kvm'' False None None) ''job_queries'' 2 False False
          (demo_world rows_server marker_dir) of
      Inl e \<Rightarrow> None
    | Inr (self', w') \<Rightarrow>
        Some (map reply_name (results self'),
              reported_counts w',
              length (filter (ends_in_round Status_success 2) (results self'))))
   = Some ([''q_round2.sql_round1'', ''q_round2.sql_round2''], [(1, 1, 0), (2, 2, 0)], 1)"
proof -
  let ?w = "demo_world rows_server marker_dir"
  let ?s2 = "(new_executor ''kvm'' False None None)
      \<lparr>connection := True, connect_time := reading ?w 1 - reading ?w 0\<rparr>"
  let ?files = "load_sql_files (advance 2 ?w) ''job_queries''"
  have "(case run_rounds False False ?files [1..2] [] ?s2 (advance 2 ?w) of
      Inl e \<Rightarrow> None
    | Inr (self', rts, w') \<Rightarrow>
        Some (map reply_name (results self'),
              reported_counts w',
              length (filter (ends_in_round Status_success 2) (results self')),
              length rts))
   = Some ([''q_round2.sql_round1'', ''q_round2.sql_round2''], [(1, 1, 0), (2, 2, 0)], 1, 2)"
    by code_simp
  then obtain self3 rts w3 where
    rr: "run_rounds False False ?files [1..2] [] ?s2 (advance 2 ?w) = Inr (self3, rts, w3)"
    and v: "map reply_name (results self3) = [''q_round2.sql_round1'', ''q_round2.sql_round2'']"
      "reported_counts w3 = [(1, 1, 0), (2, 2, 0)]"
      "length (filter (ends_in_round Status_success 2) (results self3)) = 1"
    and len: "length rts = 2"
    by (auto split: sum.splits prod.splits)
  from len have "rts \<noteq> []" by auto
  with round_statistics_ok [of 2 rts] obtain totals where
    st: "round_statistics rts 2 = Inr totals" by auto
  have c: "connect_reply ?w = Accepted" by (simp add: demo_world_def)
  have "execute_all_queries (new_executor ''kvm'' False None None) ''job_queries'' 2 False False ?w
      = Inr (self3\<lparr>round_times := rts\<rparr>, w3\<lparr>printed_totals := printed_totals w3 @ [totals]\<rparr>)"
    using c rr st by (simp add: execute_all_queries_def connect_def Let_def)
  then show ?thesis
    using v by (simp add: reported_counts_def)
qed


section \<open>Properties of the query source and of the order of execution\<close>




lemma path_join_prefix: "CHR ''/'' \<notin> set n \<Longrightarrow> path_join a n = join_prefix a @ n"
  by (cases n) (auto simp: path_join_def join_prefix_def)

lemma basename_append:
  assumes "CHR ''/'' \<notin> set n" and "x = [] \<or> last x = CHR ''/''"
  shows "py_basename (x @ n) = n"
proof -
  have a: "takeWhile (\<lambda>c. c \<noteq> CHR ''/'') (rev n @ rev x)
      = rev n @ takeWhile (\<lambda>c. c \<noteq> CHR ''/'') (rev x)"
    using assms(1) by (intro takeWhile_append2) auto
  have "takeWhile (\<lambda>c. c \<noteq> CHR ''/'') (rev x) = []"
    using assms(2) by (cases x rule: rev_cases) auto
  with a show ?thesis by (simp add: py_basename_def)
qed

lemma basename_join: "CHR ''/'' \<notin> set n \<Longrightarrow> py_basename (path_join a n) = n"
  by (simp add: path_join_prefix basename_append join_prefix_def)



















end
